theory Spec2Isabelle
  imports Main "HOL-Library.Word"
begin

unbundle bit_operations_syntax

section \<open>Data model of pkg/ovs/openflow/ofctrl_action.go\<close>

text \<open>
  The file builds OpenFlow actions on top of two external libraries, contiv/ofnet
  (package ofctrl) and contiv/libOpenflow (package openflow13). A value a library
  constructor returns is embedded as a datatype constructor that holds the arguments the
  source passes to it, and the library's Flow object as the ordered log of the
  action-building methods the source calls on it. The one library function whose result
  the source inspects, \<open>FindFieldHeaderByName\<close>, is a parameter of the model.
\<close>

type_synonym uint8 = "8 word"
type_synonym uint16 = "16 word"
type_synonym uint32 = "32 word"
type_synonym uint64 = "64 word"

text \<open>
  \<open>Range\<close> is an array of two \<open>uint32\<close> (the source builds it as
  \<open>Range{0, uint32(field.Length)*8 - 1}\<close> and reads \<open>rng[0]\<close> and \<open>rng[1]\<close>): the
  inclusive bit offsets of a window in a field.
\<close>

type_synonym Range = "uint32 \<times> uint32"

text \<open>
  \<open>TableIDType\<close> is declared in another file of the package; it is taken as the
  \<open>uint8\<close> the source converts it to.
\<close>

type_synonym TableIDType = uint8

text \<open>
  \<open>openflow13.MatchField\<close>, the library's field header. The source reads
  \<open>Length\<close> only (the width of the field in bytes).
\<close>

record MatchField =
  Class :: uint16
  Field :: uint8
  HasMask :: bool
  Length :: uint8

text \<open>
  The Go \<open>error\<close> the registry returns for a name it does not know (the spec's
  \<open>UnknownField\<close>). No other error arises in the modelled code.
\<close>

datatype error = UnknownField string

text \<open>
  What this file takes from its surroundings: the library's field registry
  (\<open>openflow13.FindFieldHeaderByName(name, hasMask)\<close>, which returns the field or an
  error), and the constants of the package that are declared in another file.
\<close>

record env =
  FindFieldHeaderByName :: "string \<Rightarrow> bool \<Rightarrow> error + MatchField"
  NxmFieldReg :: string
  NxmFieldCtMark :: string
  NxmFieldCtLabel :: string
  NxmFieldARPOp :: string
  LastTableID :: TableIDType

text \<open>
  \<open>getFieldRange\<close> returns the three Go results: the field pointer (\<open>None\<close> is
  nil), the range and the error (\<open>None\<close> is nil). The end offset is computed in
  \<open>uint32\<close>.
\<close>

definition getFieldRange :: "env \<Rightarrow> string \<Rightarrow> MatchField option \<times> Range \<times> error option" where
  "getFieldRange E name =
     (case FindFieldHeaderByName E name False of
        Inl err \<Rightarrow> (None, (0, 0), Some err)
      | Inr field \<Rightarrow> (Some field, (0, (ucast (Length field) :: uint32) * 8 - 1), None))"

subsection \<open>Formatting and ranges\<close>

text \<open>\<open>fmt.Sprintf("%d", n)\<close>: the decimal digits of \<open>n\<close>, after a minus sign when negative.\<close>

definition digit_char :: "nat \<Rightarrow> char" where
  "digit_char d = ''0123456789'' ! d"

fun fmt_nat :: "nat \<Rightarrow> string" where
  "fmt_nat n = (if n < 10 then [digit_char n] else fmt_nat (n div 10) @ [digit_char (n mod 10)])"

declare fmt_nat.simps [simp del]

definition fmt_d :: "int \<Rightarrow> string" where
  "fmt_d i = (if i < 0 then CHR ''-'' # fmt_nat (nat (- i)) else fmt_nat (nat i))"

text \<open>
  Modelled from the spec: \<open>Range.length\<close>, declared in another file of the package.
  The spec's data model gives the derived \<open>length = end - start + 1\<close>; the offsets
  are \<open>uint32\<close>.
\<close>

definition length_r :: "Range \<Rightarrow> uint32" where
  "length_r r = snd r - fst r + 1"

text \<open>\<open>openflow13.NXRange\<close>, built by the library's \<open>NewNXRange(start, end int)\<close>.\<close>

datatype NXRange = NewNXRange int int

text \<open>
  Modelled from the spec: \<open>Range.ToNXRange\<close>, declared in another file of the package:
  the conversion of the inclusive pair into the library's range, the two offsets
  converted with \<open>int(r[0]), int(r[1])\<close> as \<open>OutputFieldRange\<close> converts them.
\<close>

definition ToNXRange :: "Range \<Rightarrow> NXRange" where
  "ToNXRange r = NewNXRange (uint (fst r)) (uint (snd r))"

text \<open>The library's encoding \<open>NXRange.ToOfsBits()\<close> of a range.\<close>

datatype OfsBits = ToOfsBits NXRange

subsection \<open>Library values\<close>

text \<open>
  \<open>openflow13.Action\<close>: the actions nested in a connection-tracking action. A field
  pointer is \<open>None\<close> when nil.
\<close>

datatype Action =
    NewNXActionRegLoad OfsBits "MatchField option" uint64
  | NewNXActionRegMove uint16 uint16 uint16 "MatchField option" "MatchField option"

text \<open>
  \<open>ofctrl.FgraphElem\<close>: what the last-action slot holds. \<open>Switch_DropAction\<close> is
  \<open>Flow.Table.Switch.DropAction()\<close>; \<open>NewNXOutput name start end\<close> is the first
  result of that library call (its error is dropped by the source).
\<close>

datatype FgraphElem =
    Switch_DropAction
  | NewOutputPort uint32
  | NewNXOutput string int int
  | NewOutputInPort
  | NewResubmit "uint16 option" "uint8 option"
  | NewOutputNormal

text \<open>
  The methods of \<open>ofctrl.Flow\<close> the source calls, with their arguments. The embedded
  library Flow of a builder is the list of these calls in call order.
\<close>

datatype FlowCall =
    Flow_SetMacDa "uint8 list"
  | Flow_SetMacSa "uint8 list"
  | Flow_SetARPSha "uint8 list"
  | Flow_SetARPTha "uint8 list"
  | Flow_SetARPSpa "uint8 list"
  | Flow_SetARPTpa "uint8 list"
  | Flow_SetIPField "uint8 list" string
  | Flow_LoadReg string uint64 NXRange
  | Flow_MoveRegs string string NXRange NXRange
  | Flow_DecTTL
  | Flow_AddConjunction uint32 uint8 uint8
  | Flow_ConnTrack bool bool uint8 uint16 "Action list"

subsection \<open>Builders\<close>

text \<open>
  \<open>ofFlowBuilder\<close> (with the \<open>ofFlow\<close> it embeds): the library Flow and the
  single last-action slot, an interface value that is \<open>None\<close> when nil. An
  \<open>ofFlowAction\<close> and an \<open>ofCTAction\<close> hold a pointer to the builder they act on;
  the model holds the state of that builder, and a method that mutates the builder and
  returns the pointer returns the new state.
\<close>

record ofFlowBuilder =
  Flow :: "FlowCall list"
  lastAction :: "FgraphElem option"

record ofFlowAction =
  builder :: ofFlowBuilder

text \<open>
  \<open>ofCTAction\<close>, with the fields of the embedded \<open>ctBase\<close>. Its field
  \<open>builder\<close> is \<open>ctBuilder\<close> here.
\<close>

record ofCTAction =
  commit :: bool
  force :: bool
  ctTable :: uint8
  ctZone :: uint16
  actions :: "Action list"
  ctBuilder :: ofFlowBuilder

section \<open>The actions of a flow\<close>

definition Drop :: "ofFlowAction \<Rightarrow> ofFlowBuilder" where
  "Drop a = (builder a)\<lparr>lastAction := Some Switch_DropAction\<rparr>"

definition Output :: "ofFlowAction \<Rightarrow> int \<Rightarrow> ofFlowBuilder" where
  "Output a port = (builder a)\<lparr>lastAction := Some (NewOutputPort (word_of_int port))\<rparr>"

definition OutputFieldRange :: "ofFlowAction \<Rightarrow> string \<Rightarrow> Range \<Rightarrow> ofFlowBuilder" where
  "OutputFieldRange a name rng =
     (builder a)\<lparr>lastAction := Some (NewNXOutput name (uint (fst rng)) (uint (snd rng)))\<rparr>"

definition OutputRegRange :: "env \<Rightarrow> ofFlowAction \<Rightarrow> int \<Rightarrow> Range \<Rightarrow> ofFlowBuilder" where
  "OutputRegRange E a regID rng =
     (let name = NxmFieldReg E @ fmt_d regID in OutputFieldRange a name rng)"

definition OutputInPort :: "ofFlowAction \<Rightarrow> ofFlowBuilder" where
  "OutputInPort a = (builder a)\<lparr>lastAction := Some NewOutputInPort\<rparr>"

text \<open>
  \<open>CT\<close> builds a textual form \<open>repr\<close> of its arguments in a local variable and
  returns without using it; \<open>CT_repr\<close> is the value of that variable.
\<close>

definition CT_repr :: "env \<Rightarrow> bool \<Rightarrow> TableIDType \<Rightarrow> int \<Rightarrow> string" where
  "CT_repr E commit' tableID zone =
     (let repr0 = [];
          repr1 = (if commit' then repr0 @ ''commit'' else repr0);
          repr2 = (if tableID \<noteq> LastTableID E
                   then (if repr1 \<noteq> [] then repr1 @ '','' else repr1) @ (''table='' @ fmt_d (uint tableID))
                   else repr1);
          repr3 = (if 0 < zone
                   then (if repr2 \<noteq> [] then repr2 @ '','' else repr2) @ (''zone='' @ fmt_d zone)
                   else repr2)
      in repr3)"

definition CT :: "env \<Rightarrow> ofFlowAction \<Rightarrow> bool \<Rightarrow> TableIDType \<Rightarrow> int \<Rightarrow> ofCTAction" where
  "CT E a commit' tableID zone =
     (let repr = CT_repr E commit' tableID zone
      in \<lparr>commit = commit', force = False, ctTable = tableID, ctZone = word_of_int zone,
          actions = [], ctBuilder = builder a\<rparr>)"

subsection \<open>Actions nested in a connection-tracking action\<close>

text \<open>
  A range passed by pointer is a \<open>Range option\<close>, \<open>None\<close> for nil. Reading through
  a nil pointer panics: such a call returns \<open>None\<close>.
\<close>

definition load :: "ofCTAction \<Rightarrow> MatchField option \<Rightarrow> uint64 \<Rightarrow> Range option \<Rightarrow> ofCTAction option" where
  "load a field val rng =
     (case rng of
        None \<Rightarrow> None
      | Some r \<Rightarrow>
          (let action = NewNXActionRegLoad (ToOfsBits (ToNXRange r)) field val
           in Some (a\<lparr>actions := actions a @ [action]\<rparr>)))"

definition LoadToMark :: "env \<Rightarrow> ofCTAction \<Rightarrow> uint32 \<Rightarrow> ofCTAction option" where
  "LoadToMark E a val =
     (case getFieldRange E (NxmFieldCtMark E) of
        (field, rng, _) \<Rightarrow> load a field (ucast val) (Some rng))"

definition LoadToLabelRange :: "env \<Rightarrow> ofCTAction \<Rightarrow> uint64 \<Rightarrow> Range option \<Rightarrow> ofCTAction option" where
  "LoadToLabelRange E a val rng =
     (case getFieldRange E (NxmFieldCtLabel E) of
        (field, _, _) \<Rightarrow> load a field val rng)"

text \<open>The field pointer \<open>FindFieldHeaderByName\<close> returns when its error is dropped.\<close>

definition field_of :: "error + MatchField \<Rightarrow> MatchField option" where
  "field_of res = (case res of Inl _ \<Rightarrow> None | Inr f \<Rightarrow> Some f)"

definition move :: "ofCTAction \<Rightarrow> MatchField option \<Rightarrow> MatchField option \<Rightarrow> uint16 \<Rightarrow> uint16 \<Rightarrow> uint16 \<Rightarrow> ofCTAction" where
  "move a fromField toField nBits fromStart toStart =
     (let action = NewNXActionRegMove nBits fromStart toStart fromField toField
      in a\<lparr>actions := actions a @ [action]\<rparr>)"

definition MoveToLabel :: "env \<Rightarrow> ofCTAction \<Rightarrow> string \<Rightarrow> Range option \<Rightarrow> Range option \<Rightarrow> ofCTAction option" where
  "MoveToLabel E a fromName fromRng labelRng =
     (let fromField = field_of (FindFieldHeaderByName E fromName False);
          toField = field_of (FindFieldHeaderByName E (NxmFieldCtLabel E) False)
      in case fromRng of
           None \<Rightarrow> None
         | Some fr \<Rightarrow>
             (case labelRng of
                None \<Rightarrow> None
              | Some lr \<Rightarrow>
                  Some (move a fromField toField (ucast (length_r fr)) (ucast (fst fr)) (ucast (fst lr)))))"

definition CTDone :: "ofCTAction \<Rightarrow> ofFlowBuilder" where
  "CTDone a =
     (ctBuilder a)\<lparr>Flow := Flow (ctBuilder a) @
        [Flow_ConnTrack (commit a) (force a) (ctTable a) (ctZone a) (actions a)]\<rparr>"

subsection \<open>Field-setting, load and move actions\<close>

definition SetDstMAC :: "ofFlowAction \<Rightarrow> uint8 list \<Rightarrow> ofFlowBuilder" where
  "SetDstMAC a addr = (builder a)\<lparr>Flow := Flow (builder a) @ [Flow_SetMacDa addr]\<rparr>"

definition SetSrcMAC :: "ofFlowAction \<Rightarrow> uint8 list \<Rightarrow> ofFlowBuilder" where
  "SetSrcMAC a addr = (builder a)\<lparr>Flow := Flow (builder a) @ [Flow_SetMacSa addr]\<rparr>"

definition SetARPSha :: "ofFlowAction \<Rightarrow> uint8 list \<Rightarrow> ofFlowBuilder" where
  "SetARPSha a addr = (builder a)\<lparr>Flow := Flow (builder a) @ [Flow_SetARPSha addr]\<rparr>"

definition SetARPTha :: "ofFlowAction \<Rightarrow> uint8 list \<Rightarrow> ofFlowBuilder" where
  "SetARPTha a addr = (builder a)\<lparr>Flow := Flow (builder a) @ [Flow_SetARPTha addr]\<rparr>"

definition SetARPSpa :: "ofFlowAction \<Rightarrow> uint8 list \<Rightarrow> ofFlowBuilder" where
  "SetARPSpa a addr = (builder a)\<lparr>Flow := Flow (builder a) @ [Flow_SetARPSpa addr]\<rparr>"

definition SetARPTpa :: "ofFlowAction \<Rightarrow> uint8 list \<Rightarrow> ofFlowBuilder" where
  "SetARPTpa a addr = (builder a)\<lparr>Flow := Flow (builder a) @ [Flow_SetARPTpa addr]\<rparr>"

definition SetSrcIP :: "ofFlowAction \<Rightarrow> uint8 list \<Rightarrow> ofFlowBuilder" where
  "SetSrcIP a addr = (builder a)\<lparr>Flow := Flow (builder a) @ [Flow_SetIPField addr ''Src'']\<rparr>"

definition SetDstIP :: "ofFlowAction \<Rightarrow> uint8 list \<Rightarrow> ofFlowBuilder" where
  "SetDstIP a addr = (builder a)\<lparr>Flow := Flow (builder a) @ [Flow_SetIPField addr ''Dst'']\<rparr>"

definition SetTunnelDst :: "ofFlowAction \<Rightarrow> uint8 list \<Rightarrow> ofFlowBuilder" where
  "SetTunnelDst a addr = (builder a)\<lparr>Flow := Flow (builder a) @ [Flow_SetIPField addr ''TunDst'']\<rparr>"

definition LoadARPOperation :: "env \<Rightarrow> ofFlowAction \<Rightarrow> uint16 \<Rightarrow> ofFlowBuilder" where
  "LoadARPOperation E a val =
     (builder a)\<lparr>Flow := Flow (builder a) @
        [Flow_LoadReg (NxmFieldARPOp E) (ucast val) (NewNXRange 0 15)]\<rparr>"

definition LoadRange :: "ofFlowAction \<Rightarrow> string \<Rightarrow> uint32 \<Rightarrow> Range \<Rightarrow> ofFlowBuilder" where
  "LoadRange a name val rng =
     (builder a)\<lparr>Flow := Flow (builder a) @ [Flow_LoadReg name (ucast val) (ToNXRange rng)]\<rparr>"

definition LoadRegRange :: "env \<Rightarrow> ofFlowAction \<Rightarrow> int \<Rightarrow> uint32 \<Rightarrow> Range \<Rightarrow> ofFlowBuilder" where
  "LoadRegRange E a regID val rng =
     (let name = NxmFieldReg E @ fmt_d regID
      in (builder a)\<lparr>Flow := Flow (builder a) @ [Flow_LoadReg name (ucast val) (ToNXRange rng)]\<rparr>)"

definition MoveRange :: "ofFlowAction \<Rightarrow> string \<Rightarrow> string \<Rightarrow> Range \<Rightarrow> Range \<Rightarrow> ofFlowBuilder" where
  "MoveRange a fromField toField fromRange toRange =
     (builder a)\<lparr>Flow := Flow (builder a) @
        [Flow_MoveRegs fromField toField (ToNXRange fromRange) (ToNXRange toRange)]\<rparr>"

definition Move :: "env \<Rightarrow> ofFlowAction \<Rightarrow> string \<Rightarrow> string \<Rightarrow> ofFlowBuilder" where
  "Move E a fromField toField =
     (case getFieldRange E fromField of
        (_, fromRange, _) \<Rightarrow>
          (case getFieldRange E fromField of
             (_, toRange, _) \<Rightarrow> MoveRange a fromField toField fromRange toRange))"

definition Resubmit :: "ofFlowAction \<Rightarrow> uint16 \<Rightarrow> TableIDType \<Rightarrow> ofFlowBuilder" where
  "Resubmit a ofPort table =
     (let ofTableID = table; resubmit = NewResubmit (Some ofPort) (Some ofTableID)
      in (builder a)\<lparr>lastAction := Some resubmit\<rparr>)"

definition ResubmitToTable :: "ofFlowAction \<Rightarrow> TableIDType \<Rightarrow> ofFlowBuilder" where
  "ResubmitToTable a table =
     (let ofTableID = table; resubmit = NewResubmit None (Some ofTableID)
      in (builder a)\<lparr>lastAction := Some resubmit\<rparr>)"

definition DecTTL :: "ofFlowAction \<Rightarrow> ofFlowBuilder" where
  "DecTTL a = (builder a)\<lparr>Flow := Flow (builder a) @ [Flow_DecTTL]\<rparr>"

definition Normal :: "ofFlowAction \<Rightarrow> ofFlowBuilder" where
  "Normal a = (builder a)\<lparr>lastAction := Some NewOutputNormal\<rparr>"

definition Conjunction :: "ofFlowAction \<Rightarrow> uint32 \<Rightarrow> uint8 \<Rightarrow> uint8 \<Rightarrow> ofFlowBuilder" where
  "Conjunction a conjID clauseID nClause =
     (builder a)\<lparr>Flow := Flow (builder a) @ [Flow_AddConjunction conjID clauseID nClause]\<rparr>"

section \<open>Sequences of calls\<close>

text \<open>
  The calls a caller can make on a connection-tracking sub-builder between \<open>CT\<close>
  and \<open>CTDone\<close>, and their effect in call order. A call that panics ends the
  sequence with \<open>None\<close>.
\<close>

datatype CTCall =
    Call_LoadToMark uint32
  | Call_LoadToLabelRange uint64 "Range option"
  | Call_MoveToLabel string "Range option" "Range option"

fun ct_call :: "env \<Rightarrow> ofCTAction \<Rightarrow> CTCall \<Rightarrow> ofCTAction option" where
  "ct_call E a (Call_LoadToMark v) = LoadToMark E a v"
| "ct_call E a (Call_LoadToLabelRange v rng) = LoadToLabelRange E a v rng"
| "ct_call E a (Call_MoveToLabel fromName fromRng labelRng) = MoveToLabel E a fromName fromRng labelRng"

fun ct_calls :: "env \<Rightarrow> ofCTAction \<Rightarrow> CTCall list \<Rightarrow> ofCTAction option" where
  "ct_calls E a [] = Some a"
| "ct_calls E a (c # cs) = (case ct_call E a c of None \<Rightarrow> None | Some a' \<Rightarrow> ct_calls E a' cs)"

text \<open>
  The calls on a flow builder: every method of \<open>ofFlowAction\<close>, applied to the
  builder through a fresh \<open>ofFlowAction\<close>; \<open>Call_CT\<close> is a whole chain
  \<open>CT(...)\<close>, nested calls, \<open>CTDone()\<close>.
\<close>

datatype Call =
    Call_Drop
  | Call_Output int
  | Call_OutputFieldRange string Range
  | Call_OutputRegRange int Range
  | Call_OutputInPort
  | Call_CT bool TableIDType int "CTCall list"
  | Call_SetDstMAC "uint8 list"
  | Call_SetSrcMAC "uint8 list"
  | Call_SetARPSha "uint8 list"
  | Call_SetARPTha "uint8 list"
  | Call_SetARPSpa "uint8 list"
  | Call_SetARPTpa "uint8 list"
  | Call_SetSrcIP "uint8 list"
  | Call_SetDstIP "uint8 list"
  | Call_SetTunnelDst "uint8 list"
  | Call_LoadARPOperation uint16
  | Call_LoadRange string uint32 Range
  | Call_LoadRegRange int uint32 Range
  | Call_Move string string
  | Call_MoveRange string string Range Range
  | Call_Resubmit uint16 TableIDType
  | Call_ResubmitToTable TableIDType
  | Call_DecTTL
  | Call_Normal
  | Call_Conjunction uint32 uint8 uint8

fun call :: "env \<Rightarrow> ofFlowBuilder \<Rightarrow> Call \<Rightarrow> ofFlowBuilder option" where
  "call E b Call_Drop = Some (Drop \<lparr>builder = b\<rparr>)"
| "call E b (Call_Output port) = Some (Output \<lparr>builder = b\<rparr> port)"
| "call E b (Call_OutputFieldRange name rng) = Some (OutputFieldRange \<lparr>builder = b\<rparr> name rng)"
| "call E b (Call_OutputRegRange regID rng) = Some (OutputRegRange E \<lparr>builder = b\<rparr> regID rng)"
| "call E b Call_OutputInPort = Some (OutputInPort \<lparr>builder = b\<rparr>)"
| "call E b (Call_CT c tableID zone cs) =
     map_option CTDone (ct_calls E (CT E \<lparr>builder = b\<rparr> c tableID zone) cs)"
| "call E b (Call_SetDstMAC addr) = Some (SetDstMAC \<lparr>builder = b\<rparr> addr)"
| "call E b (Call_SetSrcMAC addr) = Some (SetSrcMAC \<lparr>builder = b\<rparr> addr)"
| "call E b (Call_SetARPSha addr) = Some (SetARPSha \<lparr>builder = b\<rparr> addr)"
| "call E b (Call_SetARPTha addr) = Some (SetARPTha \<lparr>builder = b\<rparr> addr)"
| "call E b (Call_SetARPSpa addr) = Some (SetARPSpa \<lparr>builder = b\<rparr> addr)"
| "call E b (Call_SetARPTpa addr) = Some (SetARPTpa \<lparr>builder = b\<rparr> addr)"
| "call E b (Call_SetSrcIP addr) = Some (SetSrcIP \<lparr>builder = b\<rparr> addr)"
| "call E b (Call_SetDstIP addr) = Some (SetDstIP \<lparr>builder = b\<rparr> addr)"
| "call E b (Call_SetTunnelDst addr) = Some (SetTunnelDst \<lparr>builder = b\<rparr> addr)"
| "call E b (Call_LoadARPOperation v) = Some (LoadARPOperation E \<lparr>builder = b\<rparr> v)"
| "call E b (Call_LoadRange name v rng) = Some (LoadRange \<lparr>builder = b\<rparr> name v rng)"
| "call E b (Call_LoadRegRange regID v rng) = Some (LoadRegRange E \<lparr>builder = b\<rparr> regID v rng)"
| "call E b (Call_Move fromField toField) = Some (Move E \<lparr>builder = b\<rparr> fromField toField)"
| "call E b (Call_MoveRange fromField toField fromRange toRange) =
     Some (MoveRange \<lparr>builder = b\<rparr> fromField toField fromRange toRange)"
| "call E b (Call_Resubmit ofPort table) = Some (Resubmit \<lparr>builder = b\<rparr> ofPort table)"
| "call E b (Call_ResubmitToTable table) = Some (ResubmitToTable \<lparr>builder = b\<rparr> table)"
| "call E b Call_DecTTL = Some (DecTTL \<lparr>builder = b\<rparr>)"
| "call E b Call_Normal = Some (Normal \<lparr>builder = b\<rparr>)"
| "call E b (Call_Conjunction conjID clauseID nClause) =
     Some (Conjunction \<lparr>builder = b\<rparr> conjID clauseID nClause)"

fun calls :: "env \<Rightarrow> ofFlowBuilder \<Rightarrow> Call list \<Rightarrow> ofFlowBuilder option" where
  "calls E b [] = Some b"
| "calls E b (c # cs) = (case call E b c of None \<Rightarrow> None | Some b' \<Rightarrow> calls E b' cs)"

text \<open>The calls whose method stores into the last-action slot.\<close>

fun is_terminal :: "Call \<Rightarrow> bool" where
  "is_terminal Call_Drop = True"
| "is_terminal (Call_Output _) = True"
| "is_terminal (Call_OutputFieldRange _ _) = True"
| "is_terminal (Call_OutputRegRange _ _) = True"
| "is_terminal Call_OutputInPort = True"
| "is_terminal (Call_Resubmit _ _) = True"
| "is_terminal (Call_ResubmitToTable _) = True"
| "is_terminal Call_Normal = True"
| "is_terminal _ = False"

text \<open>A nested call that passes a nil range pointer.\<close>

fun passes_nil :: "CTCall \<Rightarrow> bool" where
  "passes_nil (Call_LoadToMark _) = False"
| "passes_nil (Call_LoadToLabelRange _ rng) = (rng = None)"
| "passes_nil (Call_MoveToLabel _ fromRng labelRng) = (fromRng = None \<or> labelRng = None)"

text \<open>
  Modelled from the spec: the ordered action sequence of a Flow (the code that installs
  a flow is not among the source files). The spec's Flow holds an ordered sequence of
  actions with the terminal action last: the actions logged on the library Flow, in call
  order, then the content of the last-action slot.
\<close>

definition all_actions :: "ofFlowBuilder \<Rightarrow> (FlowCall + FgraphElem) list" where
  "all_actions b =
     map Inl (Flow b) @ (case lastAction b of None \<Rightarrow> [] | Some e \<Rightarrow> [Inr e])"

text \<open>The number of bits of a library range: the spec's derived length, \<open>end - start + 1\<close>.\<close>

definition NXRange_length :: "NXRange \<Rightarrow> int" where
  "NXRange_length n = (case n of NewNXRange s e \<Rightarrow> e - s + 1)"

text \<open>
  Reading a decimal numeral back: the value of a string of digits. It is the inverse
  against which the formatting of a register number is checked.
\<close>

definition digit_value :: "char \<Rightarrow> nat" where
  "digit_value c = of_char c - 48"

definition dec_nat :: "string \<Rightarrow> nat" where
  "dec_nat s = foldl (\<lambda>acc c. acc * 10 + digit_value c) 0 s"

text \<open>
  The field name a builder hands to the library: in the output element of its last-action
  slot, and in the load it logged last. \<open>resolve\<close> is what the registry answers for
  such a name.
\<close>

definition output_name :: "ofFlowBuilder \<Rightarrow> string option" where
  "output_name b = (case lastAction b of Some (NewNXOutput name _ _) \<Rightarrow> Some name | _ \<Rightarrow> None)"

definition load_name :: "ofFlowBuilder \<Rightarrow> string option" where
  "load_name b =
     (if Flow b = [] then None
      else case last (Flow b) of Flow_LoadReg name _ _ \<Rightarrow> Some name | _ \<Rightarrow> None)"

definition resolve :: "env \<Rightarrow> string option \<Rightarrow> (error + MatchField) option" where
  "resolve E name = map_option (\<lambda>n. FindFieldHeaderByName E n False) name"

section \<open>Interface names\<close>

subsection \<open>The standard library: SHA-1 and hexadecimal encoding\<close>

text \<open>
  \<open>crypto/sha1\<close> computes the SHA-1 digest of the bytes written to the hash (FIPS
  180-4): the message is padded to a multiple of 64 bytes and processed in blocks of
  sixteen big-endian 32-bit words.
\<close>

definition rotl :: "nat \<Rightarrow> uint32 \<Rightarrow> uint32" where
  "rotl n x = push_bit n x OR drop_bit (32 - n) x"

definition be32 :: "uint8 list \<Rightarrow> uint32" where
  "be32 bs = foldl (\<lambda>acc b. push_bit 8 acc OR ucast b) 0 bs"

definition bytes32 :: "uint32 \<Rightarrow> uint8 list" where
  "bytes32 w = [ucast (drop_bit 24 w), ucast (drop_bit 16 w), ucast (drop_bit 8 w), ucast w]"

definition bytes64 :: "uint64 \<Rightarrow> uint8 list" where
  "bytes64 w = map (\<lambda>i. ucast (drop_bit (56 - 8 * i) w)) [0..<8]"

function chunks :: "nat \<Rightarrow> 'a list \<Rightarrow> 'a list list" where
  "chunks n xs = (if n = 0 \<or> xs = [] then [] else take n xs # chunks n (drop n xs))"
  by pat_completeness auto
termination
  by (relation "measure (\<lambda>(n, xs). length xs)") auto

declare chunks.simps [simp del]

definition pad :: "uint8 list \<Rightarrow> uint8 list" where
  "pad msg = msg @ [0x80] @ replicate ((119 - length msg mod 64) mod 64) 0
               @ bytes64 (of_nat (8 * length msg))"

fun expand :: "nat \<Rightarrow> uint32 list \<Rightarrow> uint32 list" where
  "expand 0 w = w"
| "expand (Suc k) w =
     (let t = length w
      in expand k (w @ [rotl 1 (w ! (t - 3) XOR w ! (t - 8) XOR w ! (t - 14) XOR w ! (t - 16))]))"

definition f_t :: "nat \<Rightarrow> uint32 \<Rightarrow> uint32 \<Rightarrow> uint32 \<Rightarrow> uint32" where
  "f_t t b c d =
     (if t < 20 then (b AND c) OR (NOT b AND d)
      else if t < 40 then b XOR c XOR d
      else if t < 60 then (b AND c) OR (b AND d) OR (c AND d)
      else b XOR c XOR d)"

definition k_t :: "nat \<Rightarrow> uint32" where
  "k_t t = (if t < 20 then 0x5A827999 else if t < 40 then 0x6ED9EBA1
            else if t < 60 then 0x8F1BBCDC else 0xCA62C1D6)"

type_synonym digest_state = "uint32 \<times> uint32 \<times> uint32 \<times> uint32 \<times> uint32"

definition round_t :: "uint32 list \<Rightarrow> nat \<Rightarrow> digest_state \<Rightarrow> digest_state" where
  "round_t w t s = (case s of (a, b, c, d, e) \<Rightarrow>
     (rotl 5 a + f_t t b c d + e + k_t t + w ! t, a, rotl 30 b, c, d))"

definition block :: "uint8 list \<Rightarrow> digest_state \<Rightarrow> digest_state" where
  "block blk h = (case h of (h0, h1, h2, h3, h4) \<Rightarrow>
     (let w = expand 64 (map be32 (chunks 4 blk))
      in case fold (round_t w) [0..<80] h of (a, b, c, d, e) \<Rightarrow>
           (h0 + a, h1 + b, h2 + c, h3 + d, h4 + e)))"

text \<open>\<open>hash := sha1.New(); io.WriteString(hash, id); hash.Sum(nil)\<close> on the bytes of \<open>id\<close>.\<close>

definition sha1_Sum :: "uint8 list \<Rightarrow> uint8 list" where
  "sha1_Sum msg =
     (case fold block (chunks 64 (pad msg))
             (0x67452301, 0xEFCDAB89, 0x98BADCFE, 0x10325476, 0xC3D2E1F0) of
        (h0, h1, h2, h3, h4) \<Rightarrow> concat (map bytes32 [h0, h1, h2, h3, h4]))"

definition hex_digit :: "nat \<Rightarrow> char" where
  "hex_digit d = ''0123456789abcdef'' ! d"

text \<open>\<open>hex.EncodeToString\<close>: two lower-case hexadecimal digits for each byte.\<close>

definition EncodeToString :: "uint8 list \<Rightarrow> string" where
  "EncodeToString bs = concat (map (\<lambda>b. [hex_digit (unat b div 16), hex_digit (unat b mod 16)]) bs)"

text \<open>A Go string is its bytes; \<open>len\<close> and slicing count bytes.\<close>

definition string_bytes :: "string \<Rightarrow> uint8 list" where
  "string_bytes s = map of_char s"

subsection \<open>The package util\<close>

definition interfaceNameLength :: nat where
  "interfaceNameLength = 15"

definition interfacePrefixLength :: nat where
  "interfacePrefixLength = 8"

definition interfaceKeyLen :: nat where
  "interfaceKeyLen = interfaceNameLength - (interfacePrefixLength + 1)"

text \<open>
  The slice \<open>interfaceKey[:interfaceKeyLen]\<close> panics when the key is shorter than
  \<open>interfaceKeyLen\<close>: the result is then \<open>None\<close>.
\<close>

definition generateInterfaceName :: "string \<Rightarrow> string \<Rightarrow> string option" where
  "generateInterfaceName id' prefix =
     (let interfaceKey = EncodeToString (sha1_Sum (string_bytes id'));
          prefix' = (if length prefix > interfacePrefixLength
                     then take interfacePrefixLength prefix else prefix)
      in if interfaceKeyLen \<le> length interfaceKey
         then Some (prefix' @ ''-'' @ take interfaceKeyLen interfaceKey)
         else None)"

definition GenerateContainerInterfaceName :: "string \<Rightarrow> string \<Rightarrow> string option" where
  "GenerateContainerInterfaceName podName podNamespace =
     (let id' = ''pod/'' @ podNamespace @ ''/'' @ podName
      in generateInterfaceName id' podName)"

definition GenerateTunnelInterfaceName :: "string \<Rightarrow> string option" where
  "GenerateTunnelInterfaceName nodeName =
     (let id' = ''node/'' @ nodeName
      in generateInterfaceName id' nodeName)"

section \<open>A concrete registry\<close>

definition reg_field :: "nat \<Rightarrow> MatchField" where
  "reg_field n = \<lparr>Class = 1, Field = of_nat n, HasMask = False, Length = 4\<rparr>"

definition ct_mark_field :: MatchField where
  "ct_mark_field = \<lparr>Class = 1, Field = 107, HasMask = False, Length = 4\<rparr>"

definition ct_label_field :: MatchField where
  "ct_label_field = \<lparr>Class = 1, Field = 108, HasMask = False, Length = 16\<rparr>"

definition arp_op_field :: MatchField where
  "arp_op_field = \<lparr>Class = 0, Field = 15, HasMask = False, Length = 2\<rparr>"

definition find0 :: "string \<Rightarrow> bool \<Rightarrow> error + MatchField" where
  "find0 name hasMask =
     (if name = ''reg0'' then Inr (reg_field 0)
      else if name = ''reg1'' then Inr (reg_field 1)
      else if name = ''ct_mark'' then Inr ct_mark_field
      else if name = ''ct_label'' then Inr ct_label_field
      else if name = ''arp_op'' then Inr arp_op_field
      else Inl (UnknownField name))"

definition env0 :: env where
  "env0 = \<lparr>FindFieldHeaderByName = find0, NxmFieldReg = ''reg'', NxmFieldCtMark = ''ct_mark'',
            NxmFieldCtLabel = ''ct_label'', NxmFieldARPOp = ''arp_op'', LastTableID = 255\<rparr>"

text \<open>A builder on which no action has been called, and a sub-builder opened on it.\<close>

definition b0 :: ofFlowBuilder where
  "b0 = \<lparr>Flow = [], lastAction = None\<rparr>"

definition a0 :: ofFlowAction where
  "a0 = \<lparr>builder = b0\<rparr>"

definition ct0 :: ofCTAction where
  "ct0 = \<lparr>commit = False, force = False, ctTable = 0, ctZone = 0, actions = [], ctBuilder = b0\<rparr>"

text \<open>The same registry when the connection-tracking mark is not registered under its name.\<close>

definition env1 :: env where
  "env1 = env0\<lparr>NxmFieldCtMark := ''ghost''\<rparr>"

text \<open>A sequence of nested calls, and the nested actions it builds under \<open>env0\<close>.\<close>

definition cs6 :: "CTCall list" where
  "cs6 = [Call_LoadToMark 7, Call_LoadToLabelRange 1 (Some (0, 3)),
          Call_MoveToLabel ''reg0'' (Some (0, 3)) (Some (4, 7))]"

definition nested6 :: "Action list" where
  "nested6 = [NewNXActionRegLoad (ToOfsBits (NewNXRange 0 31)) (Some ct_mark_field) 7,
              NewNXActionRegLoad (ToOfsBits (NewNXRange 0 3)) (Some ct_label_field) 1,
              NewNXActionRegMove 4 0 4 (Some (reg_field 0)) (Some ct_label_field)]"

text \<open>A sequence of calls on a builder, and the builder it leaves under \<open>env0\<close>.\<close>

definition cs8 :: "Call list" where
  "cs8 = [Call_LoadRange ''reg0'' 5 (0, 3), Call_Resubmit 1 2, Call_SetDstMAC [1, 2, 3, 4, 5, 6],
          Call_CT True 3 5 [Call_LoadToMark 7], Call_Drop]"

definition b8 :: ofFlowBuilder where
  "b8 = \<lparr>Flow = [Flow_LoadReg ''reg0'' 5 (NewNXRange 0 3), Flow_SetMacDa [1, 2, 3, 4, 5, 6],
                 Flow_ConnTrack True False 3 5
                   [NewNXActionRegLoad (ToOfsBits (NewNXRange 0 31)) (Some ct_mark_field) 7]],
          lastAction = Some Switch_DropAction\<rparr>"

text \<open>
  A connection-tracking action with one load of 7 into the mark field, a builder on which
  \<open>Drop\<close> has been called, and a sub-builder opened on that builder after
  \<open>LoadToMark(7)\<close>.
\<close>

definition ct7 :: FlowCall where
  "ct7 = Flow_ConnTrack True False 3 5
           [NewNXActionRegLoad (ToOfsBits (NewNXRange 0 31)) (Some ct_mark_field) 7]"

definition dropped :: ofFlowBuilder where
  "dropped = \<lparr>Flow = [], lastAction = Some Switch_DropAction\<rparr>"

definition x6 :: ofCTAction where
  "x6 = \<lparr>commit = True, force = False, ctTable = 3, ctZone = 5,
          actions = [NewNXActionRegLoad (ToOfsBits (NewNXRange 0 31)) (Some ct_mark_field) 7],
          ctBuilder = dropped\<rparr>"

section \<open>What a single call contributes\<close>

text \<open>
  The nested actions a call appends to an empty sub-builder, the actions a call logs on
  the library Flow of an empty builder, and the element it stores into the empty
  last-action slot: what the call contributes by itself.
\<close>

definition nested :: "env \<Rightarrow> CTCall \<Rightarrow> Action list" where
  "nested E c = (case ct_call E ct0 c of None \<Rightarrow> [] | Some x \<Rightarrow> actions x)"

definition logged :: "env \<Rightarrow> Call \<Rightarrow> FlowCall list" where
  "logged E c = (case call E b0 c of None \<Rightarrow> [] | Some x \<Rightarrow> Flow x)"

definition slot :: "env \<Rightarrow> Call \<Rightarrow> FgraphElem option" where
  "slot E c = (case call E b0 c of None \<Rightarrow> None | Some x \<Rightarrow> lastAction x)"

text \<open>A connection-tracking chain in which some nested call passes a nil range pointer.\<close>

fun chain_passes_nil :: "Call \<Rightarrow> bool" where
  "chain_passes_nil (Call_CT _ _ _ cs) = list_ex passes_nil cs"
| "chain_passes_nil _ = False"

section \<open>Default range of a field\<close>

lemma ucast_times8_minus1:
  fixes w :: uint8
  assumes "0 < w"
  shows "unat ((ucast w :: uint32) * 8 - 1) = unat w * 8 - 1"
proof -
  have pos: "0 < unat w" using assms by (simp add: word_greater_zero_iff unat_gt_0)
  have bnd: "unat w < 256" using unsigned_less [of w, where ?'a = nat] by simp
  have m: "unat ((ucast w :: uint32) * 8) = unat w * 8"
    using bnd by (simp add: unat_word_ariths unsigned_ucast_eq take_bit_nat_eq_self)
  have "(1 :: uint32) \<le> ucast w * 8"
    using m pos by (simp add: word_le_nat_alt)
  then have "unat ((ucast w :: uint32) * 8 - 1) = unat ((ucast w :: uint32) * 8) - unat (1 :: uint32)"
    by (rule unat_sub)
  then show ?thesis using m by simp
qed

text \<open>
  C3. When the name resolves to a registered field of \<open>w\<close> bytes, \<open>getFieldRange\<close>
  returns that field, no error, and the range \<open>{0, w*8 - 1}\<close>; the end offset is
  computed in \<open>uint32\<close> and, for every field of at least one byte, is the number
  \<open>w*8 - 1\<close> itself (no wrap-around).
\<close>

theorem getFieldRange_full_field:
  assumes "FindFieldHeaderByName E name False = Inr f"
  shows "getFieldRange E name = (Some f, (0, (ucast (Length f) :: uint32) * 8 - 1), None)
       \<and> (0 < Length f \<longrightarrow> unat (snd (fst (snd (getFieldRange E name)))) = unat (Length f) * 8 - 1)"
  using assms by (simp add: getFieldRange_def ucast_times8_minus1)

theorem getFieldRange_full_field_witness:
  "FindFieldHeaderByName env0 ''ct_label'' False = Inr ct_label_field
   \<and> 0 < Length ct_label_field
   \<and> getFieldRange env0 ''ct_label'' = (Some ct_label_field, (0, 127), None)
   \<and> unat (snd (fst (snd (getFieldRange env0 ''ct_label'')))) = 127"
proof -
  have h: "FindFieldHeaderByName env0 ''ct_label'' False = Inr ct_label_field"
    by (simp add: env0_def find0_def)
  show ?thesis
    using h getFieldRange_full_field [OF h]
    by (simp add: ct_label_field_def)
qed

section \<open>Registers by number\<close>

lemma digit_char_cases:
  assumes "d < 10"
  shows "digit_value (digit_char d) = d \<and> digit_char d \<in> set ''0123456789'' \<and> digit_char d \<noteq> CHR ''-''"
proof -
  from assms have "d = 0 \<or> d = 1 \<or> d = 2 \<or> d = 3 \<or> d = 4 \<or> d = 5 \<or> d = 6 \<or> d = 7 \<or> d = 8 \<or> d = 9"
    by arith
  then show ?thesis
    by (elim disjE) (simp_all add: digit_char_def digit_value_def)
qed

lemma dec_nat_snoc: "dec_nat (xs @ [c]) = dec_nat xs * 10 + digit_value c"
  by (simp add: dec_nat_def)

lemma dec_nat_fmt_nat: "dec_nat (fmt_nat n) = n"
proof (induction n rule: fmt_nat.induct)
  case (1 n)
  show ?case
  proof (cases "n < 10")
    case True
    then show ?thesis using digit_char_cases [of n] by (simp add: fmt_nat.simps [of n] dec_nat_def)
  next
    case False
    have "n mod 10 < 10" by simp
    then have d: "digit_value (digit_char (n mod 10)) = n mod 10" using digit_char_cases by blast
    show ?thesis using False 1 d by (simp add: fmt_nat.simps [of n] dec_nat_snoc)
  qed
qed

lemma fmt_nat_digits: "fmt_nat n \<noteq> [] \<and> set (fmt_nat n) \<subseteq> set ''0123456789'' \<and> CHR ''-'' \<notin> set (fmt_nat n)"
proof (induction n rule: fmt_nat.induct)
  case (1 n)
  show ?case
  proof (cases "n < 10")
    case True
    then show ?thesis using digit_char_cases [of n] by (auto simp add: fmt_nat.simps [of n])
  next
    case False
    have "n mod 10 < 10" by simp
    then have d: "digit_char (n mod 10) \<in> set ''0123456789'' \<and> digit_char (n mod 10) \<noteq> CHR ''-''"
      using digit_char_cases by blast
    show ?thesis using False 1 d by (auto simp add: fmt_nat.simps [of n])
  qed
qed

lemma fmt_nat_inj: "fmt_nat n = fmt_nat m \<Longrightarrow> n = m"
  using dec_nat_fmt_nat by metis

lemma fmt_nat_no_minus: "fmt_nat n \<noteq> CHR ''-'' # s"
proof
  assume "fmt_nat n = CHR ''-'' # s"
  then have "CHR ''-'' \<in> set (fmt_nat n)" by simp
  then show False using fmt_nat_digits by blast
qed

lemma fmt_d_inj: "(fmt_d n = fmt_d m) = (n = m)"
proof
  assume e: "fmt_d n = fmt_d m"
  show "n = m"
  proof (cases "n < 0")
    case True
    show ?thesis
    proof (cases "m < 0")
      case True
      with \<open>n < 0\<close> e have "fmt_nat (nat (- n)) = fmt_nat (nat (- m))" by (simp add: fmt_d_def)
      then have "nat (- n) = nat (- m)" by (rule fmt_nat_inj)
      then show ?thesis using True \<open>n < 0\<close> by simp
    next
      case False
      with \<open>n < 0\<close> e have "fmt_nat (nat m) = CHR ''-'' # fmt_nat (nat (- n))" by (simp add: fmt_d_def)
      then show ?thesis using fmt_nat_no_minus by blast
    qed
  next
    case False
    show ?thesis
    proof (cases "m < 0")
      case True
      with \<open>\<not> n < 0\<close> e have "fmt_nat (nat n) = CHR ''-'' # fmt_nat (nat (- m))" by (simp add: fmt_d_def)
      then show ?thesis using fmt_nat_no_minus by blast
    next
      case False
      with \<open>\<not> n < 0\<close> e have "fmt_nat (nat n) = fmt_nat (nat m)" by (simp add: fmt_d_def)
      then have "nat n = nat m" by (rule fmt_nat_inj)
      then show ?thesis using False \<open>\<not> n < 0\<close> by simp
    qed
  qed
next
  assume "n = m"
  then show "fmt_d n = fmt_d m" by simp
qed

text \<open>
  C4. The register-addressed operations derive the field name from the register number
  alone: the register prefix followed by the decimal numeral of the number, a string of
  digits that reads back as the number (after a minus sign for a negative one), so that
  different numbers give different names. \<open>OutputRegRange\<close> is \<open>OutputFieldRange\<close>
  and \<open>LoadRegRange\<close> is \<open>LoadRange\<close> on that name, and that name is what they hand
  to the library. Two calls with the same number, on any builders, with any ranges and
  values, of either operation, hand over the same name, which the registry
  \<open>FindFieldHeaderByName\<close> resolves to the same field. Under \<open>env0\<close> register 1
  is named \<open>reg1\<close> and resolves to the field of register 1.
\<close>

theorem reg_operations_by_derived_name:
  "OutputRegRange E a n rng = OutputFieldRange a (NxmFieldReg E @ fmt_d n) rng
   \<and> LoadRegRange E a n v rng = LoadRange a (NxmFieldReg E @ fmt_d n) v rng
   \<and> lastAction (OutputRegRange E a n rng) =
       Some (NewNXOutput (NxmFieldReg E @ fmt_d n) (uint (fst rng)) (uint (snd rng)))
   \<and> Flow (LoadRegRange E a n v rng) =
       Flow (builder a) @ [Flow_LoadReg (NxmFieldReg E @ fmt_d n) (ucast v) (ToNXRange rng)]
   \<and> fmt_d n = (if n < 0 then CHR ''-'' # fmt_nat (nat (- n)) else fmt_nat (nat n))
   \<and> dec_nat (fmt_nat (nat n)) = nat n
   \<and> set (fmt_nat (nat n)) \<subseteq> set ''0123456789''
   \<and> ((NxmFieldReg E @ fmt_d n = NxmFieldReg E @ fmt_d m) = (n = m))
   \<and> resolve E (output_name (OutputRegRange E a n rng)) =
       Some (FindFieldHeaderByName E (NxmFieldReg E @ fmt_d n) False)
   \<and> resolve E (output_name (OutputRegRange E a' n rng')) =
       resolve E (output_name (OutputRegRange E a n rng))
   \<and> resolve E (load_name (LoadRegRange E a' n v' rng')) =
       resolve E (output_name (OutputRegRange E a n rng))
   \<and> NxmFieldReg env0 @ fmt_d 1 = ''reg1''
   \<and> NxmFieldReg env0 @ fmt_d 10 = ''reg10''
   \<and> resolve env0 (output_name (OutputRegRange env0 a0 1 (0, 15))) = Some (Inr (reg_field 1))
   \<and> resolve env0 (load_name (LoadRegRange env0 a0 0 5 (0, 15))) = Some (Inr (reg_field 0))"
proof -
  have ops: "OutputRegRange E a n rng = OutputFieldRange a (NxmFieldReg E @ fmt_d n) rng
     \<and> LoadRegRange E a n v rng = LoadRange a (NxmFieldReg E @ fmt_d n) v rng"
    by (simp add: OutputRegRange_def LoadRegRange_def LoadRange_def)
  have out: "lastAction (OutputRegRange E a n rng) =
       Some (NewNXOutput (NxmFieldReg E @ fmt_d n) (uint (fst rng)) (uint (snd rng)))"
    by (simp add: OutputRegRange_def OutputFieldRange_def)
  have ld: "Flow (LoadRegRange E a n v rng) =
       Flow (builder a) @ [Flow_LoadReg (NxmFieldReg E @ fmt_d n) (ucast v) (ToNXRange rng)]"
    by (simp add: LoadRegRange_def)
  have fd: "fmt_d n = (if n < 0 then CHR ''-'' # fmt_nat (nat (- n)) else fmt_nat (nat n))"
    by (simp add: fmt_d_def)
  have dec: "dec_nat (fmt_nat (nat n)) = nat n" by (rule dec_nat_fmt_nat)
  have dig: "set (fmt_nat (nat n)) \<subseteq> set ''0123456789''" using fmt_nat_digits by blast
  have inj: "(NxmFieldReg E @ fmt_d n = NxmFieldReg E @ fmt_d m) = (n = m)"
    by (simp add: fmt_d_inj)
  have r1: "resolve E (output_name (OutputRegRange E a n rng)) =
       Some (FindFieldHeaderByName E (NxmFieldReg E @ fmt_d n) False)"
    by (simp add: resolve_def output_name_def OutputRegRange_def OutputFieldRange_def)
  have r2: "resolve E (output_name (OutputRegRange E a' n rng')) =
       resolve E (output_name (OutputRegRange E a n rng))"
    by (simp add: resolve_def output_name_def OutputRegRange_def OutputFieldRange_def)
  have r3: "resolve E (load_name (LoadRegRange E a' n v' rng')) =
       resolve E (output_name (OutputRegRange E a n rng))"
    by (simp add: resolve_def output_name_def load_name_def OutputRegRange_def OutputFieldRange_def
        LoadRegRange_def)
  have n1: "NxmFieldReg env0 @ fmt_d 1 = ''reg1''"
    by (simp add: env0_def fmt_d_def fmt_nat.simps digit_char_def)
  have n10: "NxmFieldReg env0 @ fmt_d 10 = ''reg10''"
    by (simp add: env0_def fmt_d_def fmt_nat.simps digit_char_def)
  have f1: "resolve env0 (output_name (OutputRegRange env0 a0 1 (0, 15))) = Some (Inr (reg_field 1))"
    by (simp add: resolve_def output_name_def OutputRegRange_def OutputFieldRange_def env0_def
        find0_def fmt_d_def fmt_nat.simps digit_char_def)
  have f0: "resolve env0 (load_name (LoadRegRange env0 a0 0 5 (0, 15))) = Some (Inr (reg_field 0))"
    by (simp add: resolve_def load_name_def LoadRegRange_def env0_def
        find0_def fmt_d_def fmt_nat.simps digit_char_def)
  from ops out ld fd dec dig inj r1 r2 r3 n1 n10 f1 f0 show ?thesis by (intro conjI) blast+
qed

section \<open>Moves between fields\<close>

text \<open>
  C9. When the from-field resolves, \<open>Move\<close> takes both the from-range and the to-range
  from the from-field: it is \<open>MoveRange\<close> with the full range of the from-field on
  both sides, whatever the to-field is and whether or not it resolves.
\<close>

theorem Move_both_ranges_from_fromField:
  assumes "FindFieldHeaderByName E fromField False = Inr f"
  shows "Move E a fromField toField =
         MoveRange a fromField toField (0, ucast (Length f) * 8 - 1) (0, ucast (Length f) * 8 - 1)"
  using assms by (simp add: Move_def getFieldRange_def)

theorem Move_both_ranges_from_fromField_witness:
  "FindFieldHeaderByName env0 ''ct_label'' False = Inr ct_label_field
   \<and> getFieldRange env0 ''reg1'' = (Some (reg_field 1), (0, 31), None)
   \<and> Move env0 a0 ''ct_label'' ''reg1'' = MoveRange a0 ''ct_label'' ''reg1'' (0, 127) (0, 127)
   \<and> Move env0 a0 ''ct_label'' ''reg1'' =
       \<lparr>Flow = [Flow_MoveRegs ''ct_label'' ''reg1'' (NewNXRange 0 127) (NewNXRange 0 127)],
        lastAction = None\<rparr>"
proof -
  have h: "FindFieldHeaderByName env0 ''ct_label'' False = Inr ct_label_field"
    by (simp add: env0_def find0_def)
  have r: "getFieldRange env0 ''reg1'' = (Some (reg_field 1), (0, 31), None)"
    by (simp add: getFieldRange_def env0_def find0_def reg_field_def)
  have m: "Move env0 a0 ''ct_label'' ''reg1'' = MoveRange a0 ''ct_label'' ''reg1'' (0, 127) (0, 127)"
    using Move_both_ranges_from_fromField [OF h, of a0 "''reg1''"]
    by (simp add: ct_label_field_def)
  show ?thesis
    using h r m by (simp add: MoveRange_def a0_def b0_def ToNXRange_def)
qed

lemma Move_MoveRange:
  "Move E a fromField toField =
     MoveRange a fromField toField (fst (snd (getFieldRange E fromField))) (fst (snd (getFieldRange E fromField)))"
  by (simp add: Move_def split: prod.splits)

lemma uint_sub_le:
  fixes x y :: uint32
  assumes "x \<le> y"
  shows "uint (y - x) = uint y - uint x"
  using assms by (simp add: uint_minus_simple_alt)

lemma NXRange_length_eq:
  assumes "length_r r1 = length_r r2" "fst r1 \<le> snd r1" "fst r2 \<le> snd r2"
  shows "NXRange_length (ToNXRange r1) = NXRange_length (ToNXRange r2)"
proof -
  have "snd r1 - fst r1 = snd r2 - fst r2" using assms(1) by (simp add: length_r_def)
  then have "uint (snd r1 - fst r1) = uint (snd r2 - fst r2)" by simp
  then show ?thesis using assms(2,3) by (simp add: uint_sub_le NXRange_length_def ToNXRange_def)
qed

text \<open>
  C1, as stated, fails: the constructors return the builder and nothing else, and no length
  is compared. With ranges of 4 and 8 bits \<open>MoveRange\<close> and \<open>MoveToLabel\<close> return with
  the move recorded, and \<open>Move\<close> from the 16-byte label field into a 4-byte register
  returns with 128 bits recorded on both sides.
\<close>

theorem move_with_unequal_ranges_returns:
  "length_r (0, 3) \<noteq> length_r (0, 7)
   \<and> MoveRange a0 ''reg0'' ''reg1'' (0, 3) (0, 7) =
       \<lparr>Flow = [Flow_MoveRegs ''reg0'' ''reg1'' (NewNXRange 0 3) (NewNXRange 0 7)], lastAction = None\<rparr>
   \<and> MoveToLabel env0 ct0 ''reg0'' (Some (0, 3)) (Some (0, 7)) =
       Some (ct0\<lparr>actions := [NewNXActionRegMove 4 0 0 (Some (reg_field 0)) (Some ct_label_field)]\<rparr>)
   \<and> getFieldRange env0 ''ct_label'' = (Some ct_label_field, (0, 127), None)
   \<and> getFieldRange env0 ''reg1'' = (Some (reg_field 1), (0, 31), None)
   \<and> Move env0 a0 ''ct_label'' ''reg1'' =
       \<lparr>Flow = [Flow_MoveRegs ''ct_label'' ''reg1'' (NewNXRange 0 127) (NewNXRange 0 127)], lastAction = None\<rparr>"
  by (simp add: length_r_def MoveRange_def a0_def b0_def ToNXRange_def MoveToLabel_def move_def
      field_of_def env0_def find0_def ct0_def getFieldRange_def Move_def ct_label_field_def reg_field_def)

text \<open>
  C1, amended. A move-style construction never fails, whatever the lengths of the ranges:
  \<open>MoveRange\<close> returns the builder with one move logged that holds both ranges as
  given and leaves the last-action slot alone; \<open>Move\<close> is a \<open>MoveRange\<close>, and
  returns like it; \<open>MoveToLabel\<close>
  (with non-nil ranges) appends one move of \<open>fromRng.length()\<close> bits from offset
  \<open>fromRng[0]\<close> to offset \<open>labelRng[0]\<close>. With two well-formed ranges of equal length
  the logged move has the same bit count on both sides.
\<close>

theorem move_constructions_never_fail:
  "Flow (MoveRange a fromField toField fromRange toRange) =
     Flow (builder a) @ [Flow_MoveRegs fromField toField (ToNXRange fromRange) (ToNXRange toRange)]
   \<and> lastAction (MoveRange a fromField toField fromRange toRange) = lastAction (builder a)
   \<and> (\<exists>r1 r2. Move E a fromField toField = MoveRange a fromField toField r1 r2)
   \<and> MoveToLabel E ct fromName (Some fromRng) (Some labelRng) =
       Some (ct\<lparr>actions := actions ct @
         [NewNXActionRegMove (ucast (length_r fromRng)) (ucast (fst fromRng)) (ucast (fst labelRng))
            (field_of (FindFieldHeaderByName E fromName False))
            (field_of (FindFieldHeaderByName E (NxmFieldCtLabel E) False))]\<rparr>)
   \<and> (length_r fromRange = length_r toRange \<and> fst fromRange \<le> snd fromRange \<and> fst toRange \<le> snd toRange
        \<longrightarrow> NXRange_length (ToNXRange fromRange) = NXRange_length (ToNXRange toRange))"
proof -
  have log: "Flow (MoveRange a fromField toField fromRange toRange) =
     Flow (builder a) @ [Flow_MoveRegs fromField toField (ToNXRange fromRange) (ToNXRange toRange)]"
    by (simp add: MoveRange_def)
  have keep: "lastAction (MoveRange a fromField toField fromRange toRange) = lastAction (builder a)"
    by (simp add: MoveRange_def)
  have mv: "\<exists>r1 r2. Move E a fromField toField = MoveRange a fromField toField r1 r2"
    using Move_MoveRange by blast
  have lbl: "MoveToLabel E ct fromName (Some fromRng) (Some labelRng) =
       Some (ct\<lparr>actions := actions ct @
         [NewNXActionRegMove (ucast (length_r fromRng)) (ucast (fst fromRng)) (ucast (fst labelRng))
            (field_of (FindFieldHeaderByName E fromName False))
            (field_of (FindFieldHeaderByName E (NxmFieldCtLabel E) False))]\<rparr>)"
    by (simp add: MoveToLabel_def move_def)
  have bits: "length_r fromRange = length_r toRange \<and> fst fromRange \<le> snd fromRange \<and> fst toRange \<le> snd toRange
        \<longrightarrow> NXRange_length (ToNXRange fromRange) = NXRange_length (ToNXRange toRange)"
    using NXRange_length_eq by blast
  from log keep mv lbl bits show ?thesis by (intro conjI)
qed

theorem move_constructions_never_fail_witness:
  "length_r (4, 11) = length_r (0, 7)
   \<and> fst (4 :: uint32, 11 :: uint32) \<le> snd (4 :: uint32, 11 :: uint32)
   \<and> fst (0 :: uint32, 7 :: uint32) \<le> snd (0 :: uint32, 7 :: uint32)
   \<and> Flow (MoveRange a0 ''reg0'' ''reg1'' (4, 11) (0, 7)) =
       [Flow_MoveRegs ''reg0'' ''reg1'' (NewNXRange 4 11) (NewNXRange 0 7)]
   \<and> NXRange_length (NewNXRange 4 11) = NXRange_length (NewNXRange 0 7)"
proof -
  have h: "length_r (4, 11) = length_r (0, 7)
           \<and> fst (4 :: uint32, 11 :: uint32) \<le> snd (4 :: uint32, 11 :: uint32)
           \<and> fst (0 :: uint32, 7 :: uint32) \<le> snd (0 :: uint32, 7 :: uint32)"
    by (simp add: length_r_def)
  show ?thesis
    using h move_constructions_never_fail
      [of a0 "''reg0''" "''reg1''" "(4, 11)" "(0, 7)" env0 ct0 "''reg0''" "(4, 11)" "(0, 7)"]
    by (simp add: a0_def b0_def ToNXRange_def)
qed

section \<open>Field lookup failures and range bounds\<close>

text \<open>
  C2, as stated, fails. \<open>getFieldRange\<close> does return the registry's error, but its
  callers drop it: for a name the registry does not know, \<open>Move\<close> returns the builder
  with a move of the placeholder range \<open>{0, 0}\<close> on both sides, and \<open>LoadToMark\<close>
  appends a load through a nil field with range \<open>{0, 0}\<close>; \<open>OutputFieldRange\<close>
  stores an output for a range that ends beyond the 32 bits of the register, and for an
  unknown name, without any error.
\<close>

theorem lookup_failure_not_returned:
  "getFieldRange env0 ''ghost'' = (None, (0, 0), Some (UnknownField ''ghost''))
   \<and> Move env0 a0 ''ghost'' ''reg1'' =
       \<lparr>Flow = [Flow_MoveRegs ''ghost'' ''reg1'' (NewNXRange 0 0) (NewNXRange 0 0)], lastAction = None\<rparr>
   \<and> getFieldRange env1 (NxmFieldCtMark env1) = (None, (0, 0), Some (UnknownField ''ghost''))
   \<and> LoadToMark env1 ct0 7 =
       Some (ct0\<lparr>actions := [NewNXActionRegLoad (ToOfsBits (NewNXRange 0 0)) None 7]\<rparr>)
   \<and> getFieldRange env0 ''reg0'' = (Some (reg_field 0), (0, 31), None)
   \<and> OutputFieldRange a0 ''reg0'' (0, 4000) = \<lparr>Flow = [], lastAction = Some (NewNXOutput ''reg0'' 0 4000)\<rparr>
   \<and> OutputFieldRange a0 ''ghost'' (0, 4000) = \<lparr>Flow = [], lastAction = Some (NewNXOutput ''ghost'' 0 4000)\<rparr>"
  by (simp add: getFieldRange_def env0_def env1_def find0_def Move_def MoveRange_def a0_def b0_def
      ToNXRange_def LoadToMark_def load_def ct0_def OutputFieldRange_def reg_field_def)

text \<open>
  C2, amended. A lookup failure is detected by \<open>getFieldRange\<close>, which returns the
  registry's error with a nil field and the range \<open>{0, 0}\<close>. The action constructors
  return the builder only and go on with those values: \<open>Move\<close> is a \<open>MoveRange\<close>
  with the from-range \<open>{0, 0}\<close>, \<open>MoveToLabel\<close> appends a move from a nil field,
  \<open>LoadToMark\<close> and \<open>LoadToLabelRange\<close> load through whatever field pointer the
  lookup gave (nil on failure, \<open>LoadToMark\<close> then with the range \<open>{0, 0}\<close>), and
  \<open>OutputFieldRange\<close> hands name and range to the library as given. No constructor
  compares a range with the width of its field.
\<close>

theorem lookup_failure_dropped:
  assumes "FindFieldHeaderByName E name False = Inl err"
  shows "getFieldRange E name = (None, (0, 0), Some err)
   \<and> (\<exists>toRange. Move E a name toField = MoveRange a name toField (0, 0) toRange)
   \<and> MoveToLabel E ct name (Some fr) (Some lr) =
       Some (move ct None (field_of (FindFieldHeaderByName E (NxmFieldCtLabel E) False))
               (ucast (length_r fr)) (ucast (fst fr)) (ucast (fst lr)))
   \<and> LoadToMark E ct v =
       load ct (field_of (FindFieldHeaderByName E (NxmFieldCtMark E) False)) (ucast v)
         (Some (case FindFieldHeaderByName E (NxmFieldCtMark E) False of
                  Inl _ \<Rightarrow> (0, 0) | Inr f \<Rightarrow> (0, ucast (Length f) * 8 - 1)))
   \<and> LoadToLabelRange E ct w rng =
       load ct (field_of (FindFieldHeaderByName E (NxmFieldCtLabel E) False)) w rng
   \<and> OutputFieldRange a name r =
       (builder a)\<lparr>lastAction := Some (NewNXOutput name (uint (fst r)) (uint (snd r)))\<rparr>"
proof -
  have g: "getFieldRange E name = (None, (0, 0), Some err)"
    using assms by (simp add: getFieldRange_def)
  have "Move E a name toField = MoveRange a name toField (0, 0) (0, 0)"
    using g by (simp add: Move_MoveRange)
  then have mv: "\<exists>toRange. Move E a name toField = MoveRange a name toField (0, 0) toRange"
    by blast
  have lbl: "MoveToLabel E ct name (Some fr) (Some lr) =
       Some (move ct None (field_of (FindFieldHeaderByName E (NxmFieldCtLabel E) False))
               (ucast (length_r fr)) (ucast (fst fr)) (ucast (fst lr)))"
    using assms by (simp add: MoveToLabel_def field_of_def)
  have mark: "LoadToMark E ct v =
       load ct (field_of (FindFieldHeaderByName E (NxmFieldCtMark E) False)) (ucast v)
         (Some (case FindFieldHeaderByName E (NxmFieldCtMark E) False of
                  Inl _ \<Rightarrow> (0, 0) | Inr f \<Rightarrow> (0, ucast (Length f) * 8 - 1)))"
    by (simp add: LoadToMark_def getFieldRange_def field_of_def split: sum.splits)
  have label: "LoadToLabelRange E ct w rng =
       load ct (field_of (FindFieldHeaderByName E (NxmFieldCtLabel E) False)) w rng"
    by (simp add: LoadToLabelRange_def getFieldRange_def field_of_def split: sum.splits)
  have out: "OutputFieldRange a name r =
       (builder a)\<lparr>lastAction := Some (NewNXOutput name (uint (fst r)) (uint (snd r)))\<rparr>"
    by (simp add: OutputFieldRange_def)
  from g mv lbl mark label out show ?thesis by (intro conjI)
qed

theorem lookup_failure_dropped_witness:
  "FindFieldHeaderByName env1 ''ghost'' False = Inl (UnknownField ''ghost'')
   \<and> getFieldRange env1 ''ghost'' = (None, (0, 0), Some (UnknownField ''ghost''))
   \<and> MoveToLabel env1 ct0 ''ghost'' (Some (0, 3)) (Some (4, 7)) =
       Some (ct0\<lparr>actions := [NewNXActionRegMove 4 0 4 None (Some ct_label_field)]\<rparr>)
   \<and> LoadToMark env1 ct0 7 =
       Some (ct0\<lparr>actions := [NewNXActionRegLoad (ToOfsBits (NewNXRange 0 0)) None 7]\<rparr>)
   \<and> LoadToLabelRange env1 ct0 9 (Some (0, 200)) =
       Some (ct0\<lparr>actions := [NewNXActionRegLoad (ToOfsBits (NewNXRange 0 200)) (Some ct_label_field) 9]\<rparr>)"
proof -
  have h: "FindFieldHeaderByName env1 ''ghost'' False = Inl (UnknownField ''ghost'')"
    by (simp add: env1_def env0_def find0_def)
  have m: "FindFieldHeaderByName env1 (NxmFieldCtMark env1) False = Inl (UnknownField ''ghost'')"
    by (simp add: env1_def env0_def find0_def)
  have l: "FindFieldHeaderByName env1 (NxmFieldCtLabel env1) False = Inr ct_label_field"
    by (simp add: env1_def env0_def find0_def)
  note th = lookup_failure_dropped [OF h, of a0 "''reg1''" ct0 "(0, 3)" "(4, 7)" 7 9 "Some (0, 200)" "(0, 0)"]
  from th have g: "getFieldRange env1 ''ghost'' = (None, (0, 0), Some (UnknownField ''ghost''))"
    by blast
  from th have "MoveToLabel env1 ct0 ''ghost'' (Some (0, 3)) (Some (4, 7)) =
       Some (move ct0 None (field_of (FindFieldHeaderByName env1 (NxmFieldCtLabel env1) False))
               (ucast (length_r (0, 3))) (ucast (fst (0 :: uint32, 3 :: uint32))) (ucast (fst (4 :: uint32, 7 :: uint32))))"
    by blast
  then have mv: "MoveToLabel env1 ct0 ''ghost'' (Some (0, 3)) (Some (4, 7)) =
       Some (ct0\<lparr>actions := [NewNXActionRegMove 4 0 4 None (Some ct_label_field)]\<rparr>)"
    by (simp add: l field_of_def move_def ct0_def length_r_def)
  from th have "LoadToMark env1 ct0 7 =
       load ct0 (field_of (FindFieldHeaderByName env1 (NxmFieldCtMark env1) False)) (ucast (7 :: uint32))
         (Some (case FindFieldHeaderByName env1 (NxmFieldCtMark env1) False of
                  Inl _ \<Rightarrow> (0, 0) | Inr f \<Rightarrow> (0, ucast (Length f) * 8 - 1)))"
    by blast
  then have mk: "LoadToMark env1 ct0 7 =
       Some (ct0\<lparr>actions := [NewNXActionRegLoad (ToOfsBits (NewNXRange 0 0)) None 7]\<rparr>)"
    by (simp add: m field_of_def load_def ct0_def ToNXRange_def)
  from th have "LoadToLabelRange env1 ct0 9 (Some (0, 200)) =
       load ct0 (field_of (FindFieldHeaderByName env1 (NxmFieldCtLabel env1) False)) 9 (Some (0, 200))"
    by blast
  then have lb: "LoadToLabelRange env1 ct0 9 (Some (0, 200)) =
       Some (ct0\<lparr>actions := [NewNXActionRegLoad (ToOfsBits (NewNXRange 0 200)) (Some ct_label_field) 9]\<rparr>)"
    by (simp add: l field_of_def load_def ct0_def ToNXRange_def)
  from h g mv mk lb show ?thesis by (intro conjI)
qed

section \<open>Connection tracking\<close>

text \<open>
  C5. The sub-builder \<open>CT\<close> opens has the given commit flag and table, the force flag
  false, no nested action, and the builder of the caller. The zone it records is
  \<open>uint16(zone)\<close> for every \<open>zone\<close>: 0 for \<open>zone = 0\<close>, but 65535 for
  \<open>zone = -1\<close>, and \<open>CTDone\<close> then passes zone 65535 to the library, while the
  textual form built in the same function leaves the zone out for every
  \<open>zone <= 0\<close>.
\<close>

theorem CT_records_every_zone:
  "commit (CT E a c t z) = c
   \<and> force (CT E a c t z) = False
   \<and> ctTable (CT E a c t z) = t
   \<and> actions (CT E a c t z) = []
   \<and> ctBuilder (CT E a c t z) = builder a
   \<and> ctZone (CT E a c t z) = word_of_int z
   \<and> ctZone (CT E a c t 0) = 0
   \<and> ctZone (CT E a c t (- 1)) = 65535
   \<and> Flow (CTDone (CT E a c t (- 1))) = Flow (builder a) @ [Flow_ConnTrack c False t 65535 []]
   \<and> CT_repr E c t (- 1) = CT_repr E c t 0
   \<and> CT_repr env0 True 3 5 = ''commit,table=3,zone=5''
   \<and> CT_repr env0 True 3 (- 1) = ''commit,table=3''"
  by (simp add: CT_def CTDone_def CT_repr_def Let_def env0_def fmt_d_def fmt_nat.simps digit_char_def)

subsection \<open>Nested calls\<close>

lemma ct_call_frame:
  assumes "ct_call E a c = Some a'"
  shows "a' = a\<lparr>actions := actions a @ nested E c\<rparr> \<and> length (nested E c) = 1"
  using assms
  by (cases c)
     (auto simp add: nested_def LoadToMark_def LoadToLabelRange_def MoveToLabel_def load_def move_def
        ct0_def Let_def split: prod.splits option.splits)

lemma ct_call_returns: "(ct_call E a c = None) = passes_nil c"
  by (cases c)
     (auto simp add: LoadToMark_def LoadToLabelRange_def MoveToLabel_def load_def move_def
        Let_def split: prod.splits option.splits)

lemma ct_calls_frame:
  assumes "ct_calls E a cs = Some a'"
  shows "a' = a\<lparr>actions := actions a @ concat (map (nested E) cs)\<rparr>
       \<and> length (concat (map (nested E) cs)) = length cs"
  using assms
proof (induction cs arbitrary: a)
  case Nil
  then show ?case by simp
next
  case (Cons c cs)
  from Cons.prems obtain a1 where c1: "ct_call E a c = Some a1" and rest: "ct_calls E a1 cs = Some a'"
    by (auto split: option.splits)
  from ct_call_frame [OF c1] have a1: "a1 = a\<lparr>actions := actions a @ nested E c\<rparr>"
    and l1: "length (nested E c) = 1"
    by simp_all
  from Cons.IH [OF rest] have a': "a' = a1\<lparr>actions := actions a1 @ concat (map (nested E) cs)\<rparr>"
    and l: "length (concat (map (nested E) cs)) = length cs"
    by simp_all
  show ?case using a1 a' l1 l by simp
qed

lemma ct_calls_returns: "(ct_calls E a cs = None) = list_ex passes_nil cs"
proof (induction cs arbitrary: a)
  case Nil
  show ?case by simp
next
  case (Cons c cs)
  show ?case
  proof (cases "ct_call E a c")
    case None
    then show ?thesis using ct_call_returns [of E a c] by simp
  next
    case (Some a1)
    then have "\<not> passes_nil c" using ct_call_returns [of E a c] by simp
    then show ?thesis using Some Cons.IH [of a1] by simp
  qed
qed

text \<open>
  C6, as stated, fails in its last part. \<open>CTDone\<close> never writes the last-action slot:
  on a builder on which \<open>Drop\<close> has been called, the connection-tracking action it
  logs is followed by the drop action, which stays the terminal action of the flow; on a
  builder with an empty slot the slot stays empty. Nothing makes it run once: a second
  \<open>CTDone\<close> on the same sub-builder logs the action a second time.
\<close>

theorem CTDone_not_terminal_nor_once:
  "Drop a0 = dropped
   \<and> ct_calls env0 (CT env0 \<lparr>builder = Drop a0\<rparr> True 3 5) [Call_LoadToMark 7] = Some x6
   \<and> CTDone x6 = \<lparr>Flow = [ct7], lastAction = Some Switch_DropAction\<rparr>
   \<and> all_actions (CTDone x6) = [Inl ct7, Inr Switch_DropAction]
   \<and> last (all_actions (CTDone x6)) \<noteq> Inl ct7
   \<and> lastAction (CTDone (x6\<lparr>ctBuilder := b0\<rparr>)) = None
   \<and> Flow (CTDone (x6\<lparr>ctBuilder := CTDone x6\<rparr>)) = [ct7, ct7]"
  by (simp add: Drop_def a0_def b0_def dropped_def x6_def ct7_def CT_def LoadToMark_def load_def
      getFieldRange_def env0_def find0_def ToNXRange_def ct_mark_field_def CTDone_def all_actions_def)

text \<open>
  C6, amended. A sequence of nested calls that returns (it does unless a call passes a nil
  range) leaves the parent builder the sub-builder points to, and the flags, table and
  zone, as they were: each call appends its one action to the sub-builder's own list, in
  call order, and nothing of it is on the parent before \<open>CTDone\<close>. Each call of
  \<open>CTDone\<close> logs one connection-tracking action holding the whole list on the
  parent's Flow, after the actions already logged, and does not write the last-action
  slot: in the flow's action sequence it comes last when the slot is empty and before the
  slot's element otherwise. A second \<open>CTDone\<close> logs the action once more.
\<close>

theorem nested_actions_attached_by_CTDone:
  "(ct_calls E a cs = Some a' \<longrightarrow>
      ctBuilder a' = ctBuilder a
      \<and> commit a' = commit a \<and> force a' = force a \<and> ctTable a' = ctTable a \<and> ctZone a' = ctZone a
      \<and> actions a' = actions a @ concat (map (nested E) cs)
      \<and> length (actions a') = length (actions a) + length cs
      \<and> Flow (CTDone a') = Flow (ctBuilder a) @
           [Flow_ConnTrack (commit a) (force a) (ctTable a) (ctZone a) (actions a @ concat (map (nested E) cs))]
      \<and> lastAction (CTDone a') = lastAction (ctBuilder a)
      \<and> all_actions (CTDone a') =
           map Inl (Flow (ctBuilder a)) @
           [Inl (Flow_ConnTrack (commit a) (force a) (ctTable a) (ctZone a)
                  (actions a @ concat (map (nested E) cs)))] @
           (case lastAction (ctBuilder a) of None \<Rightarrow> [] | Some e \<Rightarrow> [Inr e])
      \<and> Flow (CTDone (a'\<lparr>ctBuilder := CTDone a'\<rparr>)) = Flow (ctBuilder a) @
           [Flow_ConnTrack (commit a) (force a) (ctTable a) (ctZone a) (actions a @ concat (map (nested E) cs)),
            Flow_ConnTrack (commit a) (force a) (ctTable a) (ctZone a) (actions a @ concat (map (nested E) cs))])
   \<and> ((\<exists>x. ct_calls E a cs = Some x) \<longleftrightarrow> \<not> list_ex passes_nil cs)"
proof -
  have ret: "(\<exists>x. ct_calls E a cs = Some x) \<longleftrightarrow> \<not> list_ex passes_nil cs"
    using ct_calls_returns [of E a cs] by auto
  have frame: "ct_calls E a cs = Some a' \<longrightarrow>
      ctBuilder a' = ctBuilder a
      \<and> commit a' = commit a \<and> force a' = force a \<and> ctTable a' = ctTable a \<and> ctZone a' = ctZone a
      \<and> actions a' = actions a @ concat (map (nested E) cs)
      \<and> length (actions a') = length (actions a) + length cs
      \<and> Flow (CTDone a') = Flow (ctBuilder a) @
           [Flow_ConnTrack (commit a) (force a) (ctTable a) (ctZone a) (actions a @ concat (map (nested E) cs))]
      \<and> lastAction (CTDone a') = lastAction (ctBuilder a)
      \<and> all_actions (CTDone a') =
           map Inl (Flow (ctBuilder a)) @
           [Inl (Flow_ConnTrack (commit a) (force a) (ctTable a) (ctZone a)
                  (actions a @ concat (map (nested E) cs)))] @
           (case lastAction (ctBuilder a) of None \<Rightarrow> [] | Some e \<Rightarrow> [Inr e])
      \<and> Flow (CTDone (a'\<lparr>ctBuilder := CTDone a'\<rparr>)) = Flow (ctBuilder a) @
           [Flow_ConnTrack (commit a) (force a) (ctTable a) (ctZone a) (actions a @ concat (map (nested E) cs)),
            Flow_ConnTrack (commit a) (force a) (ctTable a) (ctZone a) (actions a @ concat (map (nested E) cs))]"
  proof
    assume h: "ct_calls E a cs = Some a'"
    from ct_calls_frame [OF h] have a': "a' = a\<lparr>actions := actions a @ concat (map (nested E) cs)\<rparr>"
      and l: "length (concat (map (nested E) cs)) = length cs"
      by simp_all
    show "ctBuilder a' = ctBuilder a
      \<and> commit a' = commit a \<and> force a' = force a \<and> ctTable a' = ctTable a \<and> ctZone a' = ctZone a
      \<and> actions a' = actions a @ concat (map (nested E) cs)
      \<and> length (actions a') = length (actions a) + length cs
      \<and> Flow (CTDone a') = Flow (ctBuilder a) @
           [Flow_ConnTrack (commit a) (force a) (ctTable a) (ctZone a) (actions a @ concat (map (nested E) cs))]
      \<and> lastAction (CTDone a') = lastAction (ctBuilder a)
      \<and> all_actions (CTDone a') =
           map Inl (Flow (ctBuilder a)) @
           [Inl (Flow_ConnTrack (commit a) (force a) (ctTable a) (ctZone a)
                  (actions a @ concat (map (nested E) cs)))] @
           (case lastAction (ctBuilder a) of None \<Rightarrow> [] | Some e \<Rightarrow> [Inr e])
      \<and> Flow (CTDone (a'\<lparr>ctBuilder := CTDone a'\<rparr>)) = Flow (ctBuilder a) @
           [Flow_ConnTrack (commit a) (force a) (ctTable a) (ctZone a) (actions a @ concat (map (nested E) cs)),
            Flow_ConnTrack (commit a) (force a) (ctTable a) (ctZone a) (actions a @ concat (map (nested E) cs))]"
      using a' l by (simp add: CTDone_def all_actions_def)
  qed
  from frame ret show ?thesis by (rule conjI)
qed

lemma ct_calls_cs6: "ct_calls env0 (CT env0 a0 True 3 5) cs6 =
           Some \<lparr>commit = True, force = False, ctTable = 3, ctZone = 5, actions = nested6, ctBuilder = b0\<rparr>"
  by (simp add: cs6_def nested6_def CT_def a0_def LoadToMark_def LoadToLabelRange_def MoveToLabel_def
      load_def move_def getFieldRange_def env0_def find0_def field_of_def ToNXRange_def length_r_def
      ct_mark_field_def ct_label_field_def reg_field_def)

theorem nested_actions_attached_by_CTDone_witness:
  "ct_calls env0 (CT env0 a0 True 3 5) cs6 =
     Some \<lparr>commit = True, force = False, ctTable = 3, ctZone = 5, actions = nested6, ctBuilder = b0\<rparr>
   \<and> \<not> list_ex passes_nil cs6
   \<and> ctBuilder \<lparr>commit = True, force = False, ctTable = 3, ctZone = 5, actions = nested6, ctBuilder = b0\<rparr> = b0
   \<and> concat (map (nested env0) cs6) = nested6
   \<and> CTDone \<lparr>commit = True, force = False, ctTable = 3, ctZone = 5, actions = nested6, ctBuilder = b0\<rparr> =
       \<lparr>Flow = [Flow_ConnTrack True False 3 5 nested6], lastAction = None\<rparr>
   \<and> all_actions (CTDone \<lparr>commit = True, force = False, ctTable = 3, ctZone = 5, actions = nested6, ctBuilder = b0\<rparr>) =
       [Inl (Flow_ConnTrack True False 3 5 nested6)]"
proof -
  have h: "ct_calls env0 (CT env0 a0 True 3 5) cs6 =
           Some \<lparr>commit = True, force = False, ctTable = 3, ctZone = 5, actions = nested6, ctBuilder = b0\<rparr>"
    by (rule ct_calls_cs6)
  have n: "\<not> list_ex passes_nil cs6" by (simp add: cs6_def)
  have c: "CT env0 a0 True 3 5 = \<lparr>commit = True, force = False, ctTable = 3, ctZone = 5, actions = [], ctBuilder = b0\<rparr>"
    by (simp add: CT_def a0_def)
  show ?thesis
    using h n nested_actions_attached_by_CTDone [of env0 "CT env0 a0 True 3 5" cs6
        "\<lparr>commit = True, force = False, ctTable = 3, ctZone = 5, actions = nested6, ctBuilder = b0\<rparr>"]
    by (simp add: c CTDone_def all_actions_def b0_def)
qed



section \<open>Terminal actions\<close>

lemma call_returns: "(call E b c = None) = chain_passes_nil c"
  by (cases c) (simp_all add: ct_calls_returns)

lemma call_terminal:
  assumes "is_terminal c"
  shows "call E b c = Some (b\<lparr>lastAction := slot E c\<rparr>) \<and> slot E c \<noteq> None \<and> logged E c = []"
  using assms
  by (cases c)
     (simp_all add: slot_def logged_def b0_def Drop_def Output_def OutputFieldRange_def OutputRegRange_def
        OutputInPort_def Resubmit_def ResubmitToTable_def Normal_def)

lemma CT_chain:
  assumes "ct_calls E (CT E \<lparr>builder = b\<rparr> c t z) cs = Some a'"
  shows "CTDone a' = b\<lparr>Flow := Flow b @ [Flow_ConnTrack c False t (word_of_int z) (concat (map (nested E) cs))]\<rparr>"
  using ct_calls_frame [OF assms] by (simp add: CTDone_def CT_def)

lemma call_mutating:
  assumes "\<not> is_terminal c" "call E b c = Some b'"
  shows "b' = b\<lparr>Flow := Flow b @ logged E c\<rparr> \<and> slot E c = None \<and> length (logged E c) = 1"
proof (cases c)
  case (Call_CT cm t z cs)
  from assms(2) Call_CT obtain a' where a': "ct_calls E (CT E \<lparr>builder = b\<rparr> cm t z) cs = Some a'"
    and b': "b' = CTDone a'" by auto
  have "\<not> list_ex passes_nil cs" using a' ct_calls_returns [of E "CT E \<lparr>builder = b\<rparr> cm t z" cs] by simp
  then obtain a0' where a0': "ct_calls E (CT E \<lparr>builder = b0\<rparr> cm t z) cs = Some a0'"
    using ct_calls_returns [of E "CT E \<lparr>builder = b0\<rparr> cm t z" cs] by auto
  show ?thesis
    using Call_CT b' CT_chain [OF a'] CT_chain [OF a0'] a0'
    by (simp add: logged_def slot_def b0_def)
qed (use assms in \<open>simp_all add: slot_def logged_def b0_def SetDstMAC_def SetSrcMAC_def SetARPSha_def
   SetARPTha_def SetARPSpa_def SetARPTpa_def SetSrcIP_def SetDstIP_def SetTunnelDst_def LoadARPOperation_def
   LoadRange_def LoadRegRange_def Move_MoveRange MoveRange_def DecTTL_def Conjunction_def\<close>)

lemma calls_frame:
  assumes "calls E b cs = Some b'"
  shows "Flow b' = Flow b @ concat (map (logged E) (filter (\<lambda>c. \<not> is_terminal c) cs))
       \<and> lastAction b' = (if filter is_terminal cs = [] then lastAction b
                          else slot E (last (filter is_terminal cs)))"
  using assms
proof (induction cs arbitrary: b)
  case Nil
  then show ?case by simp
next
  case (Cons c cs)
  from Cons.prems obtain b1 where c1: "call E b c = Some b1" and rest: "calls E b1 cs = Some b'"
    by (auto split: option.splits)
  note IH = Cons.IH [OF rest]
  show ?case
  proof (cases "is_terminal c")
    case True
    with call_terminal [of c E b] c1 have "b1 = b\<lparr>lastAction := slot E c\<rparr>" by simp
    then show ?thesis using IH True by simp
  next
    case False
    with call_mutating [OF _ c1] have "b1 = b\<lparr>Flow := Flow b @ logged E c\<rparr>" by simp
    then show ?thesis using IH False by simp
  qed
qed

lemma calls_returns: "(calls E b cs = None) = list_ex chain_passes_nil cs"
proof (induction cs arbitrary: b)
  case Nil
  show ?case by simp
next
  case (Cons c cs)
  show ?case
  proof (cases "call E b c")
    case None
    then show ?thesis using call_returns [of E b c] by simp
  next
    case (Some b1)
    then have "\<not> chain_passes_nil c" using call_returns [of E b c] by simp
    then show ?thesis using Some Cons.IH [of b1] by simp
  qed
qed

lemma length_logged:
  assumes "calls E b cs = Some b'"
  shows "length (concat (map (logged E) (filter (\<lambda>c. \<not> is_terminal c) cs))) = length (filter (\<lambda>c. \<not> is_terminal c) cs)"
  using assms
proof (induction cs arbitrary: b)
  case Nil
  then show ?case by simp
next
  case (Cons c cs)
  from Cons.prems obtain b1 where c1: "call E b c = Some b1" and rest: "calls E b1 cs = Some b'"
    by (auto split: option.splits)
  show ?case
  proof (cases "is_terminal c")
    case True
    then show ?thesis using Cons.IH [OF rest] by simp
  next
    case False
    with call_mutating [OF _ c1] have "length (logged E c) = 1" by simp
    then show ?thesis using Cons.IH [OF rest] False by simp
  qed
qed

lemma slot_last_terminal:
  assumes "filter is_terminal cs \<noteq> []"
  shows "slot E (last (filter is_terminal cs)) \<noteq> None"
proof -
  have "last (filter is_terminal cs) \<in> set (filter is_terminal cs)" using assms by (rule last_in_set)
  then have "is_terminal (last (filter is_terminal cs))" by simp
  then show ?thesis using call_terminal by blast
qed

text \<open>
  C8, as stated, fails: a flow need not carry a terminal action. A builder on which only
  \<open>DecTTL\<close> is called, or only a chain \<open>CT\<close>, \<open>LoadToMark(7)\<close>, \<open>CTDone\<close>,
  has actions logged and an empty last-action slot: its action sequence holds no terminal
  element.
\<close>

theorem flow_without_terminal_action:
  "calls env0 b0 [Call_DecTTL] = Some \<lparr>Flow = [Flow_DecTTL], lastAction = None\<rparr>
   \<and> all_actions \<lparr>Flow = [Flow_DecTTL], lastAction = None\<rparr> = [Inl Flow_DecTTL]
   \<and> calls env0 b0 [Call_CT True 3 5 [Call_LoadToMark 7]] = Some \<lparr>Flow = [ct7], lastAction = None\<rparr>
   \<and> all_actions \<lparr>Flow = [ct7], lastAction = None\<rparr> = [Inl ct7]
   \<and> filter (\<lambda>x. \<not> isl x) [Inl ct7 :: FlowCall + FgraphElem] = []"
  by (simp add: b0_def DecTTL_def all_actions_def ct7_def CT_def LoadToMark_def load_def
      getFieldRange_def env0_def find0_def ToNXRange_def ct_mark_field_def CTDone_def)

lemma terminal_count:
  "length (filter (\<lambda>x. \<not> isl x) (all_actions b)) = (if lastAction b = None then 0 else 1)"
proof -
  have "filter (\<lambda>x. \<not> isl x) (map Inl (Flow b) :: (FlowCall + FgraphElem) list) = []"
    by (induction "Flow b") (auto simp add: filter_empty_conv)
  then show ?thesis by (auto simp add: all_actions_def)
qed

text \<open>
  C8, amended. A flow carries at most one terminal action: the builder has one last-action
  slot, which each call of \<open>Drop\<close>, \<open>Output\<close>, \<open>OutputFieldRange\<close>,
  \<open>OutputRegRange\<close>, \<open>OutputInPort\<close>, \<open>Resubmit\<close>, \<open>ResubmitToTable\<close> and
  \<open>Normal\<close> overwrites and no other call writes (\<open>CTDone\<close> logs its action on the
  Flow instead). After a sequence of calls that returns (it does unless a
  connection-tracking chain passes a nil range) the slot holds the element of the last
  such call, or what it held before when there is none; so once such a call has been made
  the flow has exactly one terminal action, after all the logged ones. The field-setting,
  load, move and connection-tracking calls log one action each on the Flow, in call
  order. \<open>Drop\<close> on a builder with nothing logged gives a flow of exactly one action,
  the switch's drop action, and no resubmission.
\<close>

theorem one_terminal_action:
  "(calls E b cs = Some b' \<longrightarrow>
      Flow b' = Flow b @ concat (map (logged E) (filter (\<lambda>c. \<not> is_terminal c) cs))
      \<and> length (Flow b') = length (Flow b) + length (filter (\<lambda>c. \<not> is_terminal c) cs)
      \<and> lastAction b' = (if filter is_terminal cs = [] then lastAction b
                         else slot E (last (filter is_terminal cs)))
      \<and> length (filter (\<lambda>x. \<not> isl x) (all_actions b')) \<le> 1
      \<and> (filter is_terminal cs \<noteq> [] \<longrightarrow>
           (\<exists>e. lastAction b' = Some e \<and> all_actions b' = map Inl (Flow b') @ [Inr e])
           \<and> length (filter (\<lambda>x. \<not> isl x) (all_actions b')) = 1))
   \<and> ((\<exists>x. calls E b cs = Some x) \<longleftrightarrow> \<not> list_ex chain_passes_nil cs)
   \<and> (Flow b = [] \<longrightarrow>
         calls E b [Call_Drop] = Some (Drop \<lparr>builder = b\<rparr>)
         \<and> all_actions (Drop \<lparr>builder = b\<rparr>) = [Inr Switch_DropAction]
         \<and> (\<forall>p t. Inr (NewResubmit p t) \<notin> set (all_actions (Drop \<lparr>builder = b\<rparr>))))"
proof -
  have ret: "(\<exists>x. calls E b cs = Some x) \<longleftrightarrow> \<not> list_ex chain_passes_nil cs"
    using calls_returns [of E b cs] by auto
  have drop: "Flow b = [] \<longrightarrow>
         calls E b [Call_Drop] = Some (Drop \<lparr>builder = b\<rparr>)
         \<and> all_actions (Drop \<lparr>builder = b\<rparr>) = [Inr Switch_DropAction]
         \<and> (\<forall>p t. Inr (NewResubmit p t) \<notin> set (all_actions (Drop \<lparr>builder = b\<rparr>)))"
    by (simp add: Drop_def all_actions_def)
  have frame: "calls E b cs = Some b' \<longrightarrow>
      Flow b' = Flow b @ concat (map (logged E) (filter (\<lambda>c. \<not> is_terminal c) cs))
      \<and> length (Flow b') = length (Flow b) + length (filter (\<lambda>c. \<not> is_terminal c) cs)
      \<and> lastAction b' = (if filter is_terminal cs = [] then lastAction b
                         else slot E (last (filter is_terminal cs)))
      \<and> length (filter (\<lambda>x. \<not> isl x) (all_actions b')) \<le> 1
      \<and> (filter is_terminal cs \<noteq> [] \<longrightarrow>
           (\<exists>e. lastAction b' = Some e \<and> all_actions b' = map Inl (Flow b') @ [Inr e])
           \<and> length (filter (\<lambda>x. \<not> isl x) (all_actions b')) = 1)"
  proof
    assume h: "calls E b cs = Some b'"
    note f = calls_frame [OF h]
    have log: "Flow b' = Flow b @ concat (map (logged E) (filter (\<lambda>c. \<not> is_terminal c) cs))"
      using f by simp
    have len: "length (Flow b') = length (Flow b) + length (filter (\<lambda>c. \<not> is_terminal c) cs)"
      using log length_logged [OF h] by simp
    have last: "lastAction b' = (if filter is_terminal cs = [] then lastAction b
                         else slot E (last (filter is_terminal cs)))"
      using f by simp
    have most: "length (filter (\<lambda>x. \<not> isl x) (all_actions b')) \<le> 1"
      by (simp add: terminal_count)
    have one: "filter is_terminal cs \<noteq> [] \<longrightarrow>
           (\<exists>e. lastAction b' = Some e \<and> all_actions b' = map Inl (Flow b') @ [Inr e])
           \<and> length (filter (\<lambda>x. \<not> isl x) (all_actions b')) = 1"
    proof
      assume t: "filter is_terminal cs \<noteq> []"
      from slot_last_terminal [OF t] obtain e where e: "slot E (last (filter is_terminal cs)) = Some e"
        by auto
      have s: "lastAction b' = Some e" using f t e by simp
      then have ex: "\<exists>e. lastAction b' = Some e \<and> all_actions b' = map Inl (Flow b') @ [Inr e]"
        by (simp add: all_actions_def)
      have cnt: "length (filter (\<lambda>x. \<not> isl x) (all_actions b')) = 1"
        using s by (simp add: terminal_count)
      from ex cnt
      show "(\<exists>e. lastAction b' = Some e \<and> all_actions b' = map Inl (Flow b') @ [Inr e])
           \<and> length (filter (\<lambda>x. \<not> isl x) (all_actions b')) = 1"
        by (rule conjI)
    qed
    from log len last most one
    show "Flow b' = Flow b @ concat (map (logged E) (filter (\<lambda>c. \<not> is_terminal c) cs))
      \<and> length (Flow b') = length (Flow b) + length (filter (\<lambda>c. \<not> is_terminal c) cs)
      \<and> lastAction b' = (if filter is_terminal cs = [] then lastAction b
                         else slot E (last (filter is_terminal cs)))
      \<and> length (filter (\<lambda>x. \<not> isl x) (all_actions b')) \<le> 1
      \<and> (filter is_terminal cs \<noteq> [] \<longrightarrow>
           (\<exists>e. lastAction b' = Some e \<and> all_actions b' = map Inl (Flow b') @ [Inr e])
           \<and> length (filter (\<lambda>x. \<not> isl x) (all_actions b')) = 1)"
      by (intro conjI)
  qed
  from frame ret drop show ?thesis by (intro conjI)
qed

lemma calls_cs8: "calls env0 b0 cs8 = Some b8"
  by (simp add: cs8_def b8_def b0_def LoadRange_def Resubmit_def SetDstMAC_def CT_def CTDone_def
      LoadToMark_def load_def getFieldRange_def env0_def find0_def Drop_def ToNXRange_def ct_mark_field_def)

theorem one_terminal_action_witness:
  "calls env0 b0 cs8 = Some b8
   \<and> filter is_terminal cs8 = [Call_Resubmit 1 2, Call_Drop]
   \<and> \<not> list_ex chain_passes_nil cs8
   \<and> Flow b0 = []
   \<and> lastAction b8 = slot env0 Call_Drop
   \<and> lastAction b8 = Some Switch_DropAction
   \<and> length (Flow b8) = 3
   \<and> all_actions b8 = map Inl (Flow b8) @ [Inr Switch_DropAction]
   \<and> length (filter (\<lambda>x. \<not> isl x) (all_actions b8)) = 1
   \<and> all_actions (Drop \<lparr>builder = b0\<rparr>) = [Inr Switch_DropAction]"
proof -
  have h: "calls env0 b0 cs8 = Some b8" by (rule calls_cs8)
  have t: "filter is_terminal cs8 = [Call_Resubmit 1 2, Call_Drop]" by (simp add: cs8_def)
  have n: "\<not> list_ex chain_passes_nil cs8" by (simp add: cs8_def)
  have e: "Flow b0 = []" by (simp add: b0_def)
  note th = one_terminal_action [of env0 b0 cs8 b8]
  from th h have len: "length (Flow b8) = length (Flow b0) + length (filter (\<lambda>c. \<not> is_terminal c) cs8)"
    by blast
  from th h have sl: "lastAction b8 = (if filter is_terminal cs8 = [] then lastAction b0
                         else slot env0 (last (filter is_terminal cs8)))"
    by blast
  have ne: "filter is_terminal cs8 \<noteq> []" using t by simp
  from th h ne have "\<exists>e. lastAction b8 = Some e \<and> all_actions b8 = map Inl (Flow b8) @ [Inr e]"
    by blast
  then have all: "all_actions b8 = map Inl (Flow b8) @ [Inr Switch_DropAction]"
    by (auto simp add: b8_def)
  from th h ne have cnt: "length (filter (\<lambda>x. \<not> isl x) (all_actions b8)) = 1"
    by blast
  from th e have dr: "all_actions (Drop \<lparr>builder = b0\<rparr>) = [Inr Switch_DropAction]"
    by blast
  have l3: "length (Flow b8) = 3" using len e by (simp add: cs8_def)
  have s1: "lastAction b8 = slot env0 Call_Drop" using sl t by simp
  have s2: "lastAction b8 = Some Switch_DropAction" by (simp add: b8_def)
  from h t n e s1 s2 l3 all cnt dr show ?thesis by (intro conjI)
qed

section \<open>Length of interface names\<close>

lemma length_sha1_Sum: "length (sha1_Sum msg) = 20"
  by (simp add: sha1_Sum_def bytes32_def split: prod.splits)

lemma length_EncodeToString: "length (EncodeToString bs) = 2 * length bs"
  by (induction bs) (simp_all add: EncodeToString_def)

lemma length_interfaceKey: "length (EncodeToString (sha1_Sum msg)) = 40"
  by (simp add: length_EncodeToString length_sha1_Sum)

lemma hex_digit_in: "d < 16 \<Longrightarrow> hex_digit d \<in> set ''0123456789abcdef''"
  unfolding hex_digit_def by (rule nth_mem) simp

lemma unat_div16: "unat (b :: uint8) div 16 < 16"
proof -
  have "unat b < 256" using unsigned_less [of b, where ?'a = nat] by simp
  then show ?thesis by simp
qed

lemma EncodeToString_hex: "set (EncodeToString bs) \<subseteq> set ''0123456789abcdef''"
proof (induction bs)
  case Nil
  show ?case by (simp add: EncodeToString_def)
next
  case (Cons b bs)
  have "hex_digit (unat b div 16) \<in> set ''0123456789abcdef''"
    by (rule hex_digit_in) (rule unat_div16)
  moreover have "hex_digit (unat b mod 16) \<in> set ''0123456789abcdef''"
    by (rule hex_digit_in) simp
  ultimately show ?case using Cons by (simp add: EncodeToString_def)
qed

lemma take_EncodeToString_hex: "set (take n (EncodeToString bs)) \<subseteq> set ''0123456789abcdef''"
  using EncodeToString_hex set_take_subset by fastforce

text \<open>
  C10. \<open>GenerateContainerInterfaceName\<close> always returns: the pod name cut to at most 8
  bytes, a hyphen, and the first 6 hexadecimal digits of the SHA-1 of
  \<open>pod/<namespace>/<name>\<close>. The result has \<open>min (len podName) 8 + 7\<close> bytes, which
  is \<open>interfaceNameLength\<close> (15) exactly when the pod name has at least 8 bytes.
\<close>

theorem GenerateContainerInterfaceName_length:
  "(let key = take 6 (EncodeToString (sha1_Sum (string_bytes (''pod/'' @ podNamespace @ ''/'' @ podName))));
        name = take 8 podName @ ''-'' @ key
    in GenerateContainerInterfaceName podName podNamespace = Some name
       \<and> length key = 6
       \<and> set key \<subseteq> set ''0123456789abcdef''
       \<and> length name = min (length podName) 8 + 7
       \<and> (length name = interfaceNameLength \<longleftrightarrow> 8 \<le> length podName))"
proof -
  have hex: "set (take 6 (EncodeToString (sha1_Sum (string_bytes (''pod/'' @ podNamespace @ ''/'' @ podName)))))
             \<subseteq> set ''0123456789abcdef''"
    by (rule take_EncodeToString_hex)
  show ?thesis
    unfolding Let_def
    using hex
    by (auto simp add: GenerateContainerInterfaceName_def generateInterfaceName_def Let_def
        length_interfaceKey interfaceKeyLen_def interfaceNameLength_def interfacePrefixLength_def)
qed

end
